theory Spec2Isabelle
  imports Complex_Main
begin

section \<open>Conventions\<close>

text \<open>
  Python floats are modelled as the real numbers they denote (rounding of the
  arithmetic is not modelled), Python dictionaries as maps, Python strings as
  \<open>string\<close>.  \<open>dict_get d k dflt\<close> is Python's \<open>d.get(k, dflt)\<close>.
\<close>

definition dict_get :: "('k \<rightharpoonup> 'v) \<Rightarrow> 'k \<Rightarrow> 'v \<Rightarrow> 'v" where
  "dict_get d k dflt = (case d k of None \<Rightarrow> dflt | Some v \<Rightarrow> v)"

section \<open>utils/explainer.py: VoiceExplainer\<close>

definition categorize_pitch_variance :: "real \<Rightarrow> string" where
  "categorize_pitch_variance pitch_variance =
     (if pitch_variance < 500 then ''low''
      else if pitch_variance < 2000 then ''medium''
      else ''high'')"

definition categorize_spectral_smoothness :: "real \<Rightarrow> string" where
  "categorize_spectral_smoothness spectral_flatness =
     (if spectral_flatness < 0.1 then ''high''
      else if spectral_flatness < 0.3 then ''medium''
      else ''low'')"

definition categorize_micro_variations :: "real \<Rightarrow> real \<Rightarrow> string" where
  "categorize_micro_variations energy_variation zcr_std =
     (let variation_score = energy_variation + (zcr_std * 10)
      in if variation_score < 0.5 then ''absent''
         else if variation_score < 1.5 then ''minimal''
         else ''present'')"

text \<open>The \<open>prediction\<close> argument is accepted and never read, as in the source.\<close>

definition generate_explanation :: "(string \<rightharpoonup> real) \<Rightarrow> string \<Rightarrow> (string \<rightharpoonup> string)" where
  "generate_explanation features prediction =
     (let pitch_category = categorize_pitch_variance (dict_get features ''pitch_variance'' 0);
          spectral_category =
            categorize_spectral_smoothness (dict_get features ''spectral_flatness_mean'' 0);
          variation_category =
            categorize_micro_variations
              (dict_get features ''energy_variation'' 0)
              (dict_get features ''zcr_std'' 0)
      in [''pitch_variance'' \<mapsto> pitch_category,
          ''spectral_smoothness'' \<mapsto> spectral_category,
          ''micro_variations'' \<mapsto> variation_category])"

section \<open>Properties of the explainer\<close>

lemma explanation_entries:
  "generate_explanation features prediction ''pitch_variance'' =
     Some (categorize_pitch_variance (dict_get features ''pitch_variance'' 0))"
  "generate_explanation features prediction ''spectral_smoothness'' =
     Some (categorize_spectral_smoothness (dict_get features ''spectral_flatness_mean'' 0))"
  "generate_explanation features prediction ''micro_variations'' =
     Some (categorize_micro_variations (dict_get features ''energy_variation'' 0)
             (dict_get features ''zcr_std'' 0))"
  by (simp_all add: generate_explanation_def)

lemma explanation_dom:
  "dom (generate_explanation features prediction) =
     {''pitch_variance'', ''spectral_smoothness'', ''micro_variations''}"
  by (auto simp add: generate_explanation_def)

text \<open>
  C1. The explanation is three independent threshold ladders: the entry
  \<open>pitch_variance\<close> is read off the feature \<open>pitch_variance\<close> alone
  (below 500 low, below 2000 medium, else high), the entry
  \<open>spectral_smoothness\<close> off \<open>spectral_flatness_mean\<close> alone (below 0.1 high,
  below 0.3 medium, else low), and the entry \<open>micro_variations\<close> off the score
  \<open>energy_variation + 10 * zcr_std\<close> alone (below 0.5 absent, below 1.5 minimal,
  else present).  For the features 100, 0.05, 0.1, 0.01 the explanation is exactly
  low, high, absent.
\<close>

theorem explanation_threshold_ladders:
  "generate_explanation features prediction ''pitch_variance'' =
     Some (if dict_get features ''pitch_variance'' 0 < 500 then ''low''
           else if dict_get features ''pitch_variance'' 0 < 2000 then ''medium''
           else ''high'')
   \<and> generate_explanation features prediction ''spectral_smoothness'' =
     Some (if dict_get features ''spectral_flatness_mean'' 0 < 0.1 then ''high''
           else if dict_get features ''spectral_flatness_mean'' 0 < 0.3 then ''medium''
           else ''low'')
   \<and> generate_explanation features prediction ''micro_variations'' =
     Some (if dict_get features ''energy_variation'' 0 + 10 * dict_get features ''zcr_std'' 0 < 0.5
           then ''absent''
           else if dict_get features ''energy_variation'' 0 + 10 * dict_get features ''zcr_std'' 0 < 1.5
           then ''minimal''
           else ''present'')
   \<and> dom (generate_explanation features prediction) =
       {''pitch_variance'', ''spectral_smoothness'', ''micro_variations''}
   \<and> generate_explanation
         [''pitch_variance'' \<mapsto> 100, ''spectral_flatness_mean'' \<mapsto> 0.05,
          ''energy_variation'' \<mapsto> 0.1, ''zcr_std'' \<mapsto> 0.01] prediction =
       [''pitch_variance'' \<mapsto> ''low'', ''spectral_smoothness'' \<mapsto> ''high'',
        ''micro_variations'' \<mapsto> ''absent'']"
proof -
  have ex: "generate_explanation
         [''pitch_variance'' \<mapsto> 100, ''spectral_flatness_mean'' \<mapsto> 0.05,
          ''energy_variation'' \<mapsto> 0.1, ''zcr_std'' \<mapsto> 0.01] prediction =
       [''pitch_variance'' \<mapsto> ''low'', ''spectral_smoothness'' \<mapsto> ''high'',
        ''micro_variations'' \<mapsto> ''absent'']"
    by (simp add: generate_explanation_def dict_get_def categorize_pitch_variance_def
          categorize_spectral_smoothness_def categorize_micro_variations_def)
  have mv: "categorize_micro_variations e z =
      (if e + 10 * z < 0.5 then ''absent'' else if e + 10 * z < 1.5 then ''minimal''
       else ''present'')" for e z
    by (simp add: categorize_micro_variations_def Let_def mult.commute)
  show ?thesis
    using ex
    by (simp only: explanation_entries explanation_dom mv categorize_pitch_variance_def
          categorize_spectral_smoothness_def simp_thms)
qed

lemma categorize_pitch_variance_range:
  "categorize_pitch_variance v \<in> {''low'', ''medium'', ''high''}"
  by (simp add: categorize_pitch_variance_def)

lemma categorize_spectral_smoothness_range:
  "categorize_spectral_smoothness v \<in> {''low'', ''medium'', ''high''}"
  by (simp add: categorize_spectral_smoothness_def)

lemma categorize_micro_variations_range:
  "categorize_micro_variations e z \<in> {''absent'', ''minimal'', ''present''}"
  by (simp add: categorize_micro_variations_def Let_def)

lemma explanation_shape:
  "generate_explanation features prediction =
     [''pitch_variance'' \<mapsto>
        categorize_pitch_variance (dict_get features ''pitch_variance'' 0),
      ''spectral_smoothness'' \<mapsto>
        categorize_spectral_smoothness (dict_get features ''spectral_flatness_mean'' 0),
      ''micro_variations'' \<mapsto>
        categorize_micro_variations (dict_get features ''energy_variation'' 0)
          (dict_get features ''zcr_std'' 0)]"
  by (simp add: generate_explanation_def)

lemma dict_get_removed_is_zero:
  "dict_get (features(k := None)) j (0::real) = dict_get (features(k \<mapsto> 0)) j 0"
  by (simp add: dict_get_def)

text \<open>
  C10. \<open>generate_explanation\<close> is total (a HOL function with no error result:
  the source has no raising branch on a dictionary of floats) and returns a
  dictionary with exactly the keys \<open>pitch_variance\<close>, \<open>spectral_smoothness\<close>
  and \<open>micro_variations\<close>, with values among low/medium/high, low/medium/high
  and absent/minimal/present.  A feature that is missing counts as 0.0: deleting
  any key gives the same explanation as storing 0 under it, and the empty
  dictionary gives low, high, absent.
\<close>

theorem explanation_total_three_keys:
  "dom (generate_explanation features prediction) =
     {''pitch_variance'', ''spectral_smoothness'', ''micro_variations''}
   \<and> (\<exists>a b c.
        generate_explanation features prediction =
          [''pitch_variance'' \<mapsto> a, ''spectral_smoothness'' \<mapsto> b,
           ''micro_variations'' \<mapsto> c]
        \<and> a \<in> {''low'', ''medium'', ''high''}
        \<and> b \<in> {''low'', ''medium'', ''high''}
        \<and> c \<in> {''absent'', ''minimal'', ''present''})
   \<and> generate_explanation (features(k := None)) prediction =
       generate_explanation (features(k \<mapsto> 0)) prediction
   \<and> generate_explanation Map.empty prediction =
       [''pitch_variance'' \<mapsto> ''low'', ''spectral_smoothness'' \<mapsto> ''high'',
        ''micro_variations'' \<mapsto> ''absent'']"
proof -
  have shape: "\<exists>a b c.
        generate_explanation features prediction =
          [''pitch_variance'' \<mapsto> a, ''spectral_smoothness'' \<mapsto> b,
           ''micro_variations'' \<mapsto> c]
        \<and> a \<in> {''low'', ''medium'', ''high''}
        \<and> b \<in> {''low'', ''medium'', ''high''}
        \<and> c \<in> {''absent'', ''minimal'', ''present''}"
    by (intro exI conjI, rule explanation_shape, rule categorize_pitch_variance_range,
        rule categorize_spectral_smoothness_range, rule categorize_micro_variations_range)
  have missing: "generate_explanation (features(k := None)) prediction =
       generate_explanation (features(k \<mapsto> 0)) prediction"
    by (simp only: explanation_shape dict_get_removed_is_zero)
  have empty: "generate_explanation Map.empty prediction =
       [''pitch_variance'' \<mapsto> ''low'', ''spectral_smoothness'' \<mapsto> ''high'',
        ''micro_variations'' \<mapsto> ''absent'']"
    by (simp add: generate_explanation_def dict_get_def categorize_pitch_variance_def
          categorize_spectral_smoothness_def categorize_micro_variations_def)
  from explanation_dom shape missing empty show ?thesis
    by (intro conjI)
qed

section \<open>utils/errors.py and utils/audio_processor.py\<close>

text \<open>
  A Python exception is kept as its class, as far as a handler of this repository
  tells classes apart, and its message (\<open>str(e)\<close>).
\<close>

datatype exception_class =
  ValueError | IndexError | KeyError | ZeroDivisionError | FileNotFoundError | OtherException

datatype py_exception = PyException exception_class string

fun str_of :: "py_exception \<Rightarrow> string" where
  "str_of (PyException c m) = m"

fun class_of :: "py_exception \<Rightarrow> exception_class" where
  "class_of (PyException c m) = c"

record voice_detection_error =
  message :: string
  error_code :: string
  details :: "string option"

definition VoiceDetectionError :: "string \<Rightarrow> string \<Rightarrow> string option \<Rightarrow> voice_detection_error" where
  "VoiceDetectionError m c d = \<lparr>message = m, error_code = c, details = d\<rparr>"

type_synonym path = string
type_synonym bytes = string
type_synonym filesystem = "path \<rightharpoonup> bytes"
type_synonym audio = "real list"

text \<open>
  The library calls of the audio pipeline (base64, tempfile, pydub, librosa) are
  not code of this repository: they are parameters.  A call that can raise
  returns a sum.  \<open>named_temporary_file fs suffix\<close> is the name
  \<open>tempfile.NamedTemporaryFile(suffix=..., delete=False)\<close> picks; the file is
  created by the caller below.  \<open>format_1f\<close> is the format \<open>{:.1f}\<close> of a float.
\<close>

record 'seg audio_lib =
  b64decode :: "string \<Rightarrow> py_exception + bytes"
  named_temporary_file :: "filesystem \<Rightarrow> string \<Rightarrow> path"
  from_mp3 :: "filesystem \<Rightarrow> path \<Rightarrow> py_exception + 'seg"
  set_channels :: "'seg \<Rightarrow> nat \<Rightarrow> 'seg"
  set_frame_rate :: "'seg \<Rightarrow> nat \<Rightarrow> 'seg"
  export_wav :: "'seg \<Rightarrow> py_exception + bytes"
  librosa_load :: "filesystem \<Rightarrow> path \<Rightarrow> nat \<Rightarrow> py_exception + (audio \<times> nat)"
  librosa_trim :: "audio \<Rightarrow> py_exception + audio"
  format_1f :: "real \<Rightarrow> string"

text \<open>\<open>os.unlink\<close>: removes the file, raises when there is none.\<close>

definition os_unlink :: "filesystem \<Rightarrow> path \<Rightarrow> py_exception + filesystem" where
  "os_unlink fs p =
     (case fs p of
        None \<Rightarrow> Inl (PyException FileNotFoundError ''No such file or directory'')
      | Some _ \<Rightarrow> Inr (fs(p := None)))"

text \<open>
  The body of the inner \<open>try\<close> of \<open>decode_base64_to_audio\<close> (lines 55 to 77):
  its result or the exception that leaves it, and the file system at that point.
\<close>

definition decode_try_body ::
  "'seg audio_lib \<Rightarrow> nat \<Rightarrow> filesystem \<Rightarrow> path \<Rightarrow>
     (py_exception + (audio \<times> nat)) \<times> filesystem" where
  "decode_try_body lib target_sr fs1 tmp_mp3_path =
     (case from_mp3 lib fs1 tmp_mp3_path of
        Inl e \<Rightarrow> (Inl e, fs1)
      | Inr seg0 \<Rightarrow>
          (let seg1 = set_channels lib seg0 1;
               seg2 = set_frame_rate lib seg1 target_sr;
               tmp_wav_path = named_temporary_file lib fs1 ''.wav'';
               fs2 = fs1(tmp_wav_path \<mapsto> [])
           in case export_wav lib seg2 of
                Inl e \<Rightarrow> (Inl e, fs2)
              | Inr wav \<Rightarrow>
                  (let fs3 = fs2(tmp_wav_path \<mapsto> wav)
                   in case librosa_load lib fs3 tmp_wav_path target_sr of
                        Inl e \<Rightarrow> (Inl e, fs3)
                      | Inr (y, sr) \<Rightarrow>
                          (case os_unlink fs3 tmp_wav_path of
                             Inl e \<Rightarrow> (Inl e, fs3)
                           | Inr fs4 \<Rightarrow> (Inr (y, sr), fs4)))))"

text \<open>The \<open>finally\<close> clause: the MP3 file is removed when it exists.\<close>

definition decode_finally :: "filesystem \<Rightarrow> path \<Rightarrow> filesystem" where
  "decode_finally fs tmp_mp3_path =
     (if tmp_mp3_path \<in> dom fs then fs(tmp_mp3_path := None) else fs)"

text \<open>The outer handler: every exception becomes a \<open>ValueError\<close> with a prefixed message.\<close>

definition decode_wrap :: "py_exception + 'a \<Rightarrow> py_exception + 'a" where
  "decode_wrap r =
     (case r of
        Inl e \<Rightarrow> Inl (PyException ValueError (''Failed to decode audio: '' @ str_of e))
      | Inr v \<Rightarrow> Inr v)"

definition decode_base64_to_audio ::
  "'seg audio_lib \<Rightarrow> nat \<Rightarrow> filesystem \<Rightarrow> string \<Rightarrow>
     (py_exception + (audio \<times> nat)) \<times> filesystem" where
  "decode_base64_to_audio lib target_sr fs base64_string =
     (case b64decode lib base64_string of
        Inl e \<Rightarrow> (decode_wrap (Inl e), fs)
      | Inr audio_bytes \<Rightarrow>
          (let tmp_mp3_path = named_temporary_file lib fs ''.mp3'';
               fs1 = fs(tmp_mp3_path \<mapsto> audio_bytes);
               (r, fs') = decode_try_body lib target_sr fs1 tmp_mp3_path
           in (decode_wrap r, decode_finally fs' tmp_mp3_path)))"

text \<open>
  \<open>preprocess_audio\<close>: trim, then RMS normalisation.  The \<open>sr\<close> argument is not
  read, as in the source.
\<close>

definition preprocess_audio :: "'seg audio_lib \<Rightarrow> audio \<Rightarrow> nat \<Rightarrow> py_exception + audio" where
  "preprocess_audio lib audio_array sr =
     (case librosa_trim lib audio_array of
        Inl e \<Rightarrow> Inl e
      | Inr audio_trimmed \<Rightarrow>
          (if length audio_trimmed > 0 then
             (let rms = sqrt (sum_list (map (\<lambda>x. x ^ 2) audio_trimmed)
                              / real (length audio_trimmed))
              in if rms > 0 then Inr (map (\<lambda>x. x / rms * 0.1) audio_trimmed)
                 else Inr audio_trimmed)
           else Inr audio_trimmed))"

definition process_base64_audio ::
  "'seg audio_lib \<Rightarrow> nat \<Rightarrow> filesystem \<Rightarrow> string \<Rightarrow>
     (voice_detection_error + (audio \<times> nat)) \<times> filesystem" where
  "process_base64_audio lib target_sr fs base64_string =
     (case decode_base64_to_audio lib target_sr fs base64_string of
        (Inl e, fs') \<Rightarrow>
          (Inl (VoiceDetectionError ''Invalid audio file format'' ''INVALID_FORMAT''
                  (Some (str_of e))), fs')
      | (Inr (audio, sr), fs') \<Rightarrow>
          (if sr = 0 then
             (Inl (VoiceDetectionError ''Failed to process audio'' ''PROCESSING_ERROR''
                     (Some ''division by zero'')), fs')
           else
             (let duration = real (length audio) / real sr
              in if duration < 1.0 then
                   (Inl (VoiceDetectionError
                           (''Audio is too short ('' @ format_1f lib duration
                              @ ''s). Minimum is 1.0 seconds.'')
                           ''AUDIO_TOO_SHORT'' None), fs')
                 else if duration > 300.0 then
                   (Inl (VoiceDetectionError
                           (''Audio is too long ('' @ format_1f lib duration
                              @ ''s). Maximum is 5 minutes.'')
                           ''AUDIO_TOO_LONG'' None), fs')
                 else
                   (case preprocess_audio lib audio sr of
                      Inl e \<Rightarrow>
                        (Inl (VoiceDetectionError ''Failed to process audio''
                                ''PROCESSING_ERROR'' (Some (str_of e))), fs')
                    | Inr audio_processed \<Rightarrow> (Inr (audio_processed, sr), fs')))))"

text \<open>
  A stand-in for the libraries, used to run the pipeline on concrete inputs:
  base64 decoding is the identity, the temporary files are \<open>/tmp/tmp0.mp3\<close> and
  \<open>/tmp/tmp0.wav\<close>, pydub reads any file that exists, and the outcomes of the
  WAV export and of \<open>librosa.load\<close> are given.
\<close>

definition stub_lib ::
  "(py_exception + bytes) \<Rightarrow> (py_exception + (audio \<times> nat)) \<Rightarrow> unit audio_lib" where
  "stub_lib exported loaded =
     \<lparr>b64decode = Inr,
      named_temporary_file = (\<lambda>fs suffix. ''/tmp/tmp0'' @ suffix),
      from_mp3 = (\<lambda>fs p. case fs p of None \<Rightarrow> Inl (PyException FileNotFoundError ''no file'') | Some _ \<Rightarrow> Inr ()),
      set_channels = (\<lambda>seg n. seg),
      set_frame_rate = (\<lambda>seg n. seg),
      export_wav = (\<lambda>seg. exported),
      librosa_load = (\<lambda>fs p sr. loaded),
      librosa_trim = Inr,
      format_1f = (\<lambda>d. ''?'')\<rparr>"

section \<open>Properties of the audio pipeline\<close>

lemma fst_process_decoded:
  assumes "fst (decode_base64_to_audio lib target_sr fs s) = Inr (audio, sr)"
  shows "fst (process_base64_audio lib target_sr fs s) =
     (if sr = 0 then
        Inl (VoiceDetectionError ''Failed to process audio'' ''PROCESSING_ERROR''
               (Some ''division by zero''))
      else if real (length audio) / real sr < 1 then
        Inl (VoiceDetectionError
               (''Audio is too short ('' @ format_1f lib (real (length audio) / real sr)
                  @ ''s). Minimum is 1.0 seconds.'')
               ''AUDIO_TOO_SHORT'' None)
      else if real (length audio) / real sr > 300 then
        Inl (VoiceDetectionError
               (''Audio is too long ('' @ format_1f lib (real (length audio) / real sr)
                  @ ''s). Maximum is 5 minutes.'')
               ''AUDIO_TOO_LONG'' None)
      else (case preprocess_audio lib audio sr of
              Inl e \<Rightarrow> Inl (VoiceDetectionError ''Failed to process audio''
                              ''PROCESSING_ERROR'' (Some (str_of e)))
            | Inr audio_processed \<Rightarrow> Inr (audio_processed, sr)))"
proof -
  obtain fs' where d: "decode_base64_to_audio lib target_sr fs s = (Inr (audio, sr), fs')"
    using assms by (cases "decode_base64_to_audio lib target_sr fs s") simp
  show ?thesis
    unfolding process_base64_audio_def d
    by (simp add: Let_def split: sum.split)
qed

lemma stub_decode:
  "fst (decode_base64_to_audio (stub_lib (Inr w) (Inr (a, r))) t Map.empty s) = Inr (a, r)"
  by (simp add: decode_base64_to_audio_def decode_try_body_def stub_lib_def os_unlink_def
        decode_wrap_def Let_def)

lemma stub_preprocess_silence:
  "preprocess_audio (stub_lib x y) (replicate n 0) r = Inr (replicate n 0)"
  by (simp add: preprocess_audio_def stub_lib_def Let_def)

text \<open>
  C3. For a clip that decodes to \<open>audio\<close> at sample rate \<open>sr\<close>,
  \<open>process_base64_audio\<close> fails with the code \<open>AUDIO_TOO_SHORT\<close> when the
  duration \<open>len(audio) / sr\<close> is below 1.0 seconds and with \<open>AUDIO_TOO_LONG\<close>
  when it is above 300.0 seconds; a duration from 1.0 to 300.0 seconds passes the
  validation, and the result is then the one of the preprocessing.
\<close>

theorem duration_validation:
  assumes "fst (decode_base64_to_audio lib target_sr fs s) = Inr (audio, sr)"
    and "0 < sr"
  shows "(real (length audio) / real sr < 1 \<longrightarrow>
           (\<exists>e. fst (process_base64_audio lib target_sr fs s) = Inl e
                \<and> error_code e = ''AUDIO_TOO_SHORT''))
       \<and> (300 < real (length audio) / real sr \<longrightarrow>
           (\<exists>e. fst (process_base64_audio lib target_sr fs s) = Inl e
                \<and> error_code e = ''AUDIO_TOO_LONG''))
       \<and> (1 \<le> real (length audio) / real sr \<and> real (length audio) / real sr \<le> 300 \<longrightarrow>
           fst (process_base64_audio lib target_sr fs s) =
             (case preprocess_audio lib audio sr of
                Inl e \<Rightarrow> Inl (VoiceDetectionError ''Failed to process audio''
                                ''PROCESSING_ERROR'' (Some (str_of e)))
              | Inr audio_processed \<Rightarrow> Inr (audio_processed, sr)))"
proof -
  define d where "d = real (length audio) / real sr"
  define r where "r = fst (process_base64_audio lib target_sr fs s)"
  have nz: "sr \<noteq> 0" using assms(2) by simp
  have p: "r =
      (if d < 1 then
        Inl (VoiceDetectionError
               (''Audio is too short ('' @ format_1f lib d @ ''s). Minimum is 1.0 seconds.'')
               ''AUDIO_TOO_SHORT'' None)
      else if d > 300 then
        Inl (VoiceDetectionError
               (''Audio is too long ('' @ format_1f lib d @ ''s). Maximum is 5 minutes.'')
               ''AUDIO_TOO_LONG'' None)
      else (case preprocess_audio lib audio sr of
              Inl e \<Rightarrow> Inl (VoiceDetectionError ''Failed to process audio''
                              ''PROCESSING_ERROR'' (Some (str_of e)))
            | Inr audio_processed \<Rightarrow> Inr (audio_processed, sr)))"
    unfolding d_def r_def fst_process_decoded [OF assms(1)] using nz by (simp only: if_False)
  have short: "d < 1 \<longrightarrow> (\<exists>e. r = Inl e \<and> error_code e = ''AUDIO_TOO_SHORT'')"
    by (simp add: p VoiceDetectionError_def)
  have long: "300 < d \<longrightarrow> (\<exists>e. r = Inl e \<and> error_code e = ''AUDIO_TOO_LONG'')"
    by (simp add: p VoiceDetectionError_def)
  have ok: "1 \<le> d \<and> d \<le> 300 \<longrightarrow> r =
             (case preprocess_audio lib audio sr of
                Inl e \<Rightarrow> Inl (VoiceDetectionError ''Failed to process audio''
                                ''PROCESSING_ERROR'' (Some (str_of e)))
              | Inr audio_processed \<Rightarrow> Inr (audio_processed, sr))"
    by (simp add: p)
  from short long ok show ?thesis
    unfolding d_def r_def by (intro conjI)
qed

theorem duration_validation_witness:
  "(\<exists>e. fst (process_base64_audio
              (stub_lib (Inr ''RIFF'') (Inr (replicate 8000 0, 16000))) 16000 Map.empty ''AAAA'')
            = Inl e \<and> error_code e = ''AUDIO_TOO_SHORT'')
   \<and> (\<exists>e. fst (process_base64_audio
              (stub_lib (Inr ''RIFF'') (Inr (replicate 4816000 0, 16000))) 16000 Map.empty ''AAAA'')
            = Inl e \<and> error_code e = ''AUDIO_TOO_LONG'')
   \<and> fst (process_base64_audio
              (stub_lib (Inr ''RIFF'') (Inr (replicate 16000 0, 16000))) 16000 Map.empty ''AAAA'')
       = Inr (replicate 16000 0, 16000)
   \<and> fst (process_base64_audio
              (stub_lib (Inr ''RIFF'') (Inr (replicate 4800000 0, 16000))) 16000 Map.empty ''AAAA'')
       = Inr (replicate 4800000 0, 16000)"
  using
    duration_validation [OF stub_decode [of "''RIFF''" "replicate 8000 0" 16000 16000 "''AAAA''"]]
    duration_validation [OF stub_decode [of "''RIFF''" "replicate 4816000 0" 16000 16000 "''AAAA''"]]
    duration_validation [OF stub_decode [of "''RIFF''" "replicate 16000 0" 16000 16000 "''AAAA''"]]
    duration_validation [OF stub_decode [of "''RIFF''" "replicate 4800000 0" 16000 16000 "''AAAA''"]]
  by (simp add: stub_preprocess_silence)


text \<open>
  C8. The temporary MP3 and WAV files of \<open>decode_base64_to_audio\<close> are to be
  deleted on every exit path.  The code deletes the WAV file on the success path
  only: the \<open>finally\<close> clause removes the MP3 file alone.  On the input below
  the clip is transcoded and \<open>librosa.load\<close> raises; the call raises
  \<open>ValueError\<close>, the MP3 file is gone and the WAV file is still there.
\<close>

theorem decode_leaves_wav_file_when_load_fails:
  "fst (decode_base64_to_audio
          (stub_lib (Inr ''RIFF'') (Inl (PyException OtherException ''bad wav''))) 16000 Map.empty ''AAAA'')
     = Inl (PyException ValueError ''Failed to decode audio: bad wav'')
   \<and> snd (decode_base64_to_audio
          (stub_lib (Inr ''RIFF'') (Inl (PyException OtherException ''bad wav''))) 16000 Map.empty ''AAAA'')
        ''/tmp/tmp0.wav'' = Some ''RIFF''
   \<and> snd (decode_base64_to_audio
          (stub_lib (Inr ''RIFF'') (Inl (PyException OtherException ''bad wav''))) 16000 Map.empty ''AAAA'')
        ''/tmp/tmp0.mp3'' = None"
  by (simp add: decode_base64_to_audio_def decode_try_body_def stub_lib_def os_unlink_def
        decode_wrap_def decode_finally_def Let_def)

text \<open>The same on every library: a failing export or load leaves the WAV file.\<close>

lemma decode_leaves_wav_file:
  assumes "b64decode lib s = Inr b"
    and "mp3 = named_temporary_file lib fs ''.mp3''"
    and "from_mp3 lib (fs(mp3 \<mapsto> b)) mp3 = Inr seg"
    and "wav = named_temporary_file lib (fs(mp3 \<mapsto> b)) ''.wav''"
    and "wav \<noteq> mp3"
    and "export_wav lib (set_frame_rate lib (set_channels lib seg 1) target_sr) = Inl e
         \<or> (\<exists>w. export_wav lib (set_frame_rate lib (set_channels lib seg 1) target_sr) = Inr w
                \<and> librosa_load lib (fs(mp3 \<mapsto> b, wav \<mapsto> w)) wav target_sr = Inl e)"
  shows "wav \<in> dom (snd (decode_base64_to_audio lib target_sr fs s))"
  using assms
  by (auto simp add: decode_base64_to_audio_def decode_try_body_def decode_finally_def
        Let_def)

text \<open>What the code does guarantee: the MP3 file never outlives the call.\<close>

lemma decode_removes_mp3_file:
  assumes "b64decode lib s = Inr b"
  shows "named_temporary_file lib fs ''.mp3''
           \<notin> dom (snd (decode_base64_to_audio lib target_sr fs s))"
  using assms
  by (simp add: decode_base64_to_audio_def decode_finally_def Let_def split: prod.split)

section \<open>model/classifier.py: VoiceClassifier\<close>

text \<open>
  The two pickled artifacts (a fitted scaler and a fitted forest) are parameters.
  \<open>predict\<close> reshapes a one-dimensional vector to a single row and reads row 0
  of the answers, so the artifacts are given on one row.
\<close>

record classifier_artifacts =
  scaler_transform :: "real list \<Rightarrow> real list"
  model_predict :: "real list \<Rightarrow> int"
  model_predict_proba :: "real list \<Rightarrow> real list"
  feature_importances :: "real list"

text \<open>Indexing a Python sequence with a constant that is not negative.\<close>

definition py_index :: "'a list \<Rightarrow> nat \<Rightarrow> py_exception + 'a" where
  "py_index xs i =
     (if i < length xs then Inr (xs ! i) else Inl (PyException IndexError ''index out of range''))"

definition predict ::
  "classifier_artifacts \<Rightarrow> real list \<Rightarrow> py_exception + (string \<times> real \<times> real list)" where
  "predict clf feature_vector =
     (let feature_scaled = scaler_transform clf feature_vector;
          prediction_label = model_predict clf feature_scaled;
          probabilities = model_predict_proba clf feature_scaled
      in if prediction_label = 0 then
           (case py_index probabilities 0 of
              Inl e \<Rightarrow> Inl e
            | Inr confidence \<Rightarrow> Inr (''AI_GENERATED'', confidence, probabilities))
         else
           (case py_index probabilities 1 of
              Inl e \<Rightarrow> Inl e
            | Inr confidence \<Rightarrow> Inr (''HUMAN'', confidence, probabilities)))"

definition feature_names :: "string list" where
  "feature_names =
     [''mfcc_mean'', ''mfcc_std'', ''mfcc_var'', ''mfcc_max'', ''mfcc_min'',
      ''pitch_mean'', ''pitch_std'', ''pitch_variance'', ''pitch_range'',
      ''spectral_flatness_mean'', ''spectral_flatness_std'',
      ''spectral_centroid_mean'', ''spectral_centroid_std'',
      ''spectral_rolloff_mean'', ''spectral_bandwidth_mean'',
      ''rms_mean'', ''rms_std'', ''rms_variance'',
      ''zcr_mean'', ''zcr_std'',
      ''energy_variation'', ''audio_duration'']"

text \<open>
  \<open>get_feature_importance\<close>: the names zipped with the importances, sorted by
  importance, largest first (Python's sort is stable, also with \<open>reverse=True\<close>).
\<close>

definition get_feature_importance :: "classifier_artifacts \<Rightarrow> (string \<times> real) list" where
  "get_feature_importance clf =
     sort_key (\<lambda>x. - snd x) (zip feature_names (feature_importances clf))"

definition stub_classifier :: classifier_artifacts where
  "stub_classifier =
     \<lparr>scaler_transform = map (\<lambda>x. x / 2),
      model_predict = (\<lambda>row. if sum_list row < 0 then 0 else 1),
      model_predict_proba = (\<lambda>row. if sum_list row < 0 then [0.75, 0.25] else [0.25, 0.75]),
      feature_importances = replicate 22 (1 / 22)\<rparr>"

lemma predict_label:
  "predict clf v = Inr (label, confidence, probabilities) \<Longrightarrow>
     label = ''AI_GENERATED'' \<or> label = ''HUMAN''"
  by (auto simp add: predict_def Let_def split: if_splits sum.splits)

text \<open>
  C4. \<open>predict\<close> scales the vector, asks the model for a class index and for
  the class probabilities, maps index 0 to \<open>AI_GENERATED\<close> and index 1 to
  \<open>HUMAN\<close>, and returns as confidence the probability of the predicted
  class.  For a fitted binary model (a class index 0 or 1, two probabilities, each
  from 0 to 1) the label is one of the two names and the confidence is from 0 to 1.
\<close>

theorem predict_label_and_confidence:
  assumes "length (model_predict_proba clf (scaler_transform clf v)) = 2"
    and "\<forall>p \<in> set (model_predict_proba clf (scaler_transform clf v)). 0 \<le> p \<and> p \<le> 1"
    and "model_predict clf (scaler_transform clf v) = 0
         \<or> model_predict clf (scaler_transform clf v) = 1"
  shows "predict clf v =
           Inr (if model_predict clf (scaler_transform clf v) = 0
                then ''AI_GENERATED'' else ''HUMAN'',
                model_predict_proba clf (scaler_transform clf v)
                  ! nat (model_predict clf (scaler_transform clf v)),
                model_predict_proba clf (scaler_transform clf v))
         \<and> 0 \<le> model_predict_proba clf (scaler_transform clf v)
                  ! nat (model_predict clf (scaler_transform clf v))
         \<and> model_predict_proba clf (scaler_transform clf v)
                  ! nat (model_predict clf (scaler_transform clf v)) \<le> 1"
proof -
  define probs where "probs = model_predict_proba clf (scaler_transform clf v)"
  define lab where "lab = model_predict clf (scaler_transform clf v)"
  have len: "length probs = 2" using assms(1) by (simp add: probs_def)
  have rng: "0 \<le> probs ! i \<and> probs ! i \<le> 1" if "i < 2" for i
    using assms(2) len that by (simp add: probs_def [symmetric])
  have lab01: "lab = 0 \<or> lab = 1" using assms(3) by (simp add: lab_def)
  have p: "predict clf v =
      (if lab = 0 then Inr (''AI_GENERATED'', probs ! 0, probs)
       else Inr (''HUMAN'', probs ! 1, probs))"
    using len by (simp add: predict_def py_index_def Let_def probs_def lab_def)
  show ?thesis
    unfolding probs_def [symmetric] lab_def [symmetric]
    using lab01 rng [of 0] rng [of 1] by (auto simp add: p)
qed

theorem predict_label_and_confidence_witness:
  "length (model_predict_proba stub_classifier (scaler_transform stub_classifier [2, 4])) = 2
   \<and> list_all (\<lambda>p. 0 \<le> p \<and> p \<le> 1)
        (model_predict_proba stub_classifier (scaler_transform stub_classifier [2, 4]))
   \<and> model_predict stub_classifier (scaler_transform stub_classifier [2, 4]) = 1
   \<and> predict stub_classifier [2, 4] = Inr (''HUMAN'', 0.75, [0.25, 0.75])
   \<and> predict stub_classifier [-2, -4] = Inr (''AI_GENERATED'', 0.75, [0.75, 0.25])"
  using predict_label_and_confidence [of stub_classifier "[2, 4]"]
    predict_label_and_confidence [of stub_classifier "[-2, -4]"]
  by (simp add: stub_classifier_def)

section \<open>model/feature_extractor.py: FeatureExtractor\<close>

text \<open>
  A two-dimensional numpy array: its shape and its entries.  The librosa routines
  are parameters and may raise; the numpy reductions (\<open>np.mean\<close>, \<open>np.std\<close>,
  \<open>np.var\<close>, \<open>np.max\<close>, \<open>np.min\<close>) are parameters on the flattened array.
\<close>

record ndarray =
  shape0 :: nat
  shape1 :: nat
  entry :: "nat \<Rightarrow> nat \<Rightarrow> real"

definition flatten :: "ndarray \<Rightarrow> real list" where
  "flatten a = concat (map (\<lambda>i. map (entry a i) [0..<shape1 a]) [0..<shape0 a])"

record dsp_lib =
  librosa_mfcc :: "audio \<Rightarrow> nat \<Rightarrow> nat \<Rightarrow> py_exception + ndarray"
  librosa_piptrack :: "audio \<Rightarrow> nat \<Rightarrow> py_exception + (ndarray \<times> ndarray)"
  librosa_spectral_flatness :: "audio \<Rightarrow> py_exception + ndarray"
  librosa_spectral_centroid :: "audio \<Rightarrow> nat \<Rightarrow> py_exception + ndarray"
  librosa_spectral_rolloff :: "audio \<Rightarrow> nat \<Rightarrow> py_exception + ndarray"
  librosa_spectral_bandwidth :: "audio \<Rightarrow> nat \<Rightarrow> py_exception + ndarray"
  librosa_rms :: "audio \<Rightarrow> py_exception + ndarray"
  librosa_zero_crossing_rate :: "audio \<Rightarrow> py_exception + ndarray"
  librosa_util_frame :: "audio \<Rightarrow> nat \<Rightarrow> nat \<Rightarrow> py_exception + ndarray"
  np_mean :: "real list \<Rightarrow> real"
  np_std :: "real list \<Rightarrow> real"
  np_var :: "real list \<Rightarrow> real"
  np_max :: "real list \<Rightarrow> real"
  np_min :: "real list \<Rightarrow> real"

text \<open>Sequencing of calls that may raise: the first exception leaves the function.\<close>

definition exn_bind :: "py_exception + 'a \<Rightarrow> ('a \<Rightarrow> py_exception + 'b) \<Rightarrow> py_exception + 'b" where
  "exn_bind r f = (case r of Inl e \<Rightarrow> Inl e | Inr v \<Rightarrow> f v)"

definition extract_mfcc_features ::
  "dsp_lib \<Rightarrow> nat \<Rightarrow> audio \<Rightarrow> py_exception + (string \<rightharpoonup> real)" where
  "extract_mfcc_features lib sr audio =
     exn_bind (librosa_mfcc lib audio sr 13) (\<lambda>mfccs.
       Inr [''mfcc_mean'' \<mapsto> np_mean lib (flatten mfccs),
            ''mfcc_std'' \<mapsto> np_std lib (flatten mfccs),
            ''mfcc_var'' \<mapsto> np_var lib (flatten mfccs),
            ''mfcc_max'' \<mapsto> np_max lib (flatten mfccs),
            ''mfcc_min'' \<mapsto> np_min lib (flatten mfccs)])"

text \<open>
  \<open>argmax\<close> of a one-dimensional array: the first index of the largest entry;
  numpy raises on an empty array.
\<close>

fun argmax_from :: "real list \<Rightarrow> nat \<Rightarrow> real \<Rightarrow> nat \<Rightarrow> nat" where
  "argmax_from [] i best best_i = best_i"
| "argmax_from (x # xs) i best best_i =
     (if x > best then argmax_from xs (Suc i) x i else argmax_from xs (Suc i) best best_i)"

definition argmax :: "real list \<Rightarrow> py_exception + nat" where
  "argmax xs =
     (case xs of
        [] \<Rightarrow> Inl (PyException ValueError ''attempt to get argmax of an empty sequence'')
      | x # rest \<Rightarrow> Inr (argmax_from rest 1 x 0))"

text \<open>\<open>a[:, t]\<close> and \<open>a[i, t]\<close>, with numpy's index check.\<close>

definition column :: "ndarray \<Rightarrow> nat \<Rightarrow> py_exception + real list" where
  "column a t =
     (if t < shape1 a then Inr (map (\<lambda>i. entry a i t) [0..<shape0 a])
      else Inl (PyException IndexError ''index out of bounds''))"

definition item :: "ndarray \<Rightarrow> nat \<Rightarrow> nat \<Rightarrow> py_exception + real" where
  "item a i t =
     (if i < shape0 a \<and> t < shape1 a then Inr (entry a i t)
      else Inl (PyException IndexError ''index out of bounds''))"

text \<open>The loop over the frames \<open>t\<close>; \<open>pitch_values\<close> is the list built so far.\<close>

fun pitch_loop ::
  "ndarray \<Rightarrow> ndarray \<Rightarrow> nat list \<Rightarrow> real list \<Rightarrow> py_exception + real list" where
  "pitch_loop pitches magnitudes [] pitch_values = Inr pitch_values"
| "pitch_loop pitches magnitudes (t # ts) pitch_values =
     exn_bind (column magnitudes t) (\<lambda>col.
     exn_bind (argmax col) (\<lambda>index.
     exn_bind (item pitches index t) (\<lambda>pitch.
       pitch_loop pitches magnitudes ts
         (if pitch > 0 then pitch_values @ [pitch] else pitch_values))))"

definition extract_pitch_features ::
  "dsp_lib \<Rightarrow> nat \<Rightarrow> audio \<Rightarrow> py_exception + (string \<rightharpoonup> real)" where
  "extract_pitch_features lib sr audio =
     exn_bind (librosa_piptrack lib audio sr) (\<lambda>(pitches, magnitudes).
     exn_bind (pitch_loop pitches magnitudes [0..<shape1 pitches] []) (\<lambda>pitch_values.
       if length pitch_values > 0 then
         Inr [''pitch_mean'' \<mapsto> np_mean lib pitch_values,
              ''pitch_std'' \<mapsto> np_std lib pitch_values,
              ''pitch_variance'' \<mapsto> np_var lib pitch_values,
              ''pitch_range'' \<mapsto> np_max lib pitch_values - np_min lib pitch_values]
       else
         Inr [''pitch_mean'' \<mapsto> 0.0,
              ''pitch_std'' \<mapsto> 0.0,
              ''pitch_variance'' \<mapsto> 0.0,
              ''pitch_range'' \<mapsto> 0.0]))"

definition extract_spectral_features ::
  "dsp_lib \<Rightarrow> nat \<Rightarrow> audio \<Rightarrow> py_exception + (string \<rightharpoonup> real)" where
  "extract_spectral_features lib sr audio =
     exn_bind (librosa_spectral_flatness lib audio) (\<lambda>spectral_flatness.
     exn_bind (librosa_spectral_centroid lib audio sr) (\<lambda>spectral_centroid.
     exn_bind (librosa_spectral_rolloff lib audio sr) (\<lambda>spectral_rolloff.
     exn_bind (librosa_spectral_bandwidth lib audio sr) (\<lambda>spectral_bandwidth.
       Inr [''spectral_flatness_mean'' \<mapsto> np_mean lib (flatten spectral_flatness),
            ''spectral_flatness_std'' \<mapsto> np_std lib (flatten spectral_flatness),
            ''spectral_centroid_mean'' \<mapsto> np_mean lib (flatten spectral_centroid),
            ''spectral_centroid_std'' \<mapsto> np_std lib (flatten spectral_centroid),
            ''spectral_rolloff_mean'' \<mapsto> np_mean lib (flatten spectral_rolloff),
            ''spectral_bandwidth_mean'' \<mapsto> np_mean lib (flatten spectral_bandwidth)]))))"

definition extract_energy_features ::
  "dsp_lib \<Rightarrow> nat \<Rightarrow> audio \<Rightarrow> py_exception + (string \<rightharpoonup> real)" where
  "extract_energy_features lib sr audio =
     exn_bind (librosa_rms lib audio) (\<lambda>rms.
     exn_bind (librosa_zero_crossing_rate lib audio) (\<lambda>zcr.
       Inr [''rms_mean'' \<mapsto> np_mean lib (flatten rms),
            ''rms_std'' \<mapsto> np_std lib (flatten rms),
            ''rms_variance'' \<mapsto> np_var lib (flatten rms),
            ''zcr_mean'' \<mapsto> np_mean lib (flatten zcr),
            ''zcr_std'' \<mapsto> np_std lib (flatten zcr)]))"

text \<open>\<open>np.sum(frames**2, axis=0)\<close>: one sum of squares for each column.\<close>

definition sum_squares_axis0 :: "ndarray \<Rightarrow> real list" where
  "sum_squares_axis0 frames =
     map (\<lambda>t. sum_list (map (\<lambda>i. (entry frames i t) ^ 2) [0..<shape0 frames]))
       [0..<shape1 frames]"

definition extract_temporal_features ::
  "dsp_lib \<Rightarrow> nat \<Rightarrow> audio \<Rightarrow> py_exception + (string \<rightharpoonup> real)" where
  "extract_temporal_features lib sr audio =
     (let hop_length = 512; frame_length = 2048
      in exn_bind (librosa_util_frame lib audio frame_length hop_length) (\<lambda>frames.
           let frame_energies = sum_squares_axis0 frames;
               energy_variation =
                 np_std lib frame_energies / (np_mean lib frame_energies + 1 / 10 ^ 8)
           in if sr = 0 then Inl (PyException ZeroDivisionError ''division by zero'')
              else Inr [''energy_variation'' \<mapsto> energy_variation,
                        ''audio_duration'' \<mapsto> real (length audio) / real sr]))"

text \<open>\<open>features.update(d)\<close> is \<open>features ++ d\<close>.\<close>

definition extract_all_features ::
  "dsp_lib \<Rightarrow> nat \<Rightarrow> audio \<Rightarrow> py_exception + (string \<rightharpoonup> real)" where
  "extract_all_features lib sr audio =
     (let features = Map.empty
      in exn_bind (extract_mfcc_features lib sr audio) (\<lambda>d1. let features = features ++ d1 in
         exn_bind (extract_pitch_features lib sr audio) (\<lambda>d2. let features = features ++ d2 in
         exn_bind (extract_spectral_features lib sr audio) (\<lambda>d3. let features = features ++ d3 in
         exn_bind (extract_energy_features lib sr audio) (\<lambda>d4. let features = features ++ d4 in
         exn_bind (extract_temporal_features lib sr audio) (\<lambda>d5. let features = features ++ d5 in
           Inr features))))))"

definition feature_order :: "string list" where
  "feature_order =
     [''mfcc_mean'', ''mfcc_std'', ''mfcc_var'', ''mfcc_max'', ''mfcc_min'',
      ''pitch_mean'', ''pitch_std'', ''pitch_variance'', ''pitch_range'',
      ''spectral_flatness_mean'', ''spectral_flatness_std'',
      ''spectral_centroid_mean'', ''spectral_centroid_std'',
      ''spectral_rolloff_mean'', ''spectral_bandwidth_mean'',
      ''rms_mean'', ''rms_std'', ''rms_variance'',
      ''zcr_mean'', ''zcr_std'',
      ''energy_variation'', ''audio_duration'']"

text \<open>\<open>[features[key] for key in keys]\<close>: a missing key raises \<open>KeyError\<close>.\<close>

fun lookup_all :: "(string \<rightharpoonup> real) \<Rightarrow> string list \<Rightarrow> py_exception + real list" where
  "lookup_all features [] = Inr []"
| "lookup_all features (key # keys) =
     (case features key of
        None \<Rightarrow> Inl (PyException KeyError key)
      | Some v \<Rightarrow> exn_bind (lookup_all features keys) (\<lambda>vs. Inr (v # vs)))"

definition get_feature_vector :: "dsp_lib \<Rightarrow> nat \<Rightarrow> audio \<Rightarrow> py_exception + real list" where
  "get_feature_vector lib sr audio =
     exn_bind (extract_all_features lib sr audio) (\<lambda>features.
       lookup_all features feature_order)"


text \<open>
  A stand-in for librosa and numpy, used to run the extractor on a concrete input:
  every librosa array is constant, \<open>librosa.util.frame\<close> raises on an input
  shorter than a frame, and the reductions are the textbook ones.
\<close>

definition const_array :: "nat \<Rightarrow> nat \<Rightarrow> real \<Rightarrow> ndarray" where
  "const_array r c v = \<lparr>shape0 = r, shape1 = c, entry = (\<lambda>i j. v)\<rparr>"

definition stub_dsp :: dsp_lib where
  "stub_dsp =
     \<lparr>librosa_mfcc = (\<lambda>a sr n. Inr (const_array n 2 1)),
      librosa_piptrack = (\<lambda>a sr. Inr (const_array 3 2 220, const_array 3 2 1)),
      librosa_spectral_flatness = (\<lambda>a. Inr (const_array 1 2 0.05)),
      librosa_spectral_centroid = (\<lambda>a sr. Inr (const_array 1 2 1500)),
      librosa_spectral_rolloff = (\<lambda>a sr. Inr (const_array 1 2 3000)),
      librosa_spectral_bandwidth = (\<lambda>a sr. Inr (const_array 1 2 1000)),
      librosa_rms = (\<lambda>a. Inr (const_array 1 2 0.1)),
      librosa_zero_crossing_rate = (\<lambda>a. Inr (const_array 1 2 0.01)),
      librosa_util_frame =
        (\<lambda>a frame_length hop_length.
           if length a < frame_length then Inl (PyException OtherException ''Input is too short'')
           else Inr (const_array frame_length 2 0)),
      np_mean = (\<lambda>xs. sum_list xs / real (length xs)),
      np_std = (\<lambda>xs. sqrt (sum_list (map (\<lambda>x. (x - sum_list xs / real (length xs)) ^ 2) xs)
                          / real (length xs))),
      np_var = (\<lambda>xs. sum_list (map (\<lambda>x. (x - sum_list xs / real (length xs)) ^ 2) xs)
                    / real (length xs)),
      np_max = (\<lambda>xs. Max (set xs)),
      np_min = (\<lambda>xs. Min (set xs))\<rparr>"

section \<open>Properties of the feature vector\<close>

lemma exn_bind_Inr_iff:
  "exn_bind r f = Inr y \<longleftrightarrow> (\<exists>v. r = Inr v \<and> f v = Inr y)"
  by (cases r) (simp_all add: exn_bind_def)

lemma exn_bind_simps:
  "exn_bind (Inl e) f = Inl e" "exn_bind (Inr v) f = f v"
  by (simp_all add: exn_bind_def)


lemma mfcc_shape:
  assumes "extract_mfcc_features lib sr audio = Inr d"
  shows "\<exists>v1 v2 v3 v4 v5.
           d = [''mfcc_mean'' \<mapsto> v1, ''mfcc_std'' \<mapsto> v2, ''mfcc_var'' \<mapsto> v3,
                ''mfcc_max'' \<mapsto> v4, ''mfcc_min'' \<mapsto> v5]"
  using assms unfolding extract_mfcc_features_def exn_bind_Inr_iff
  by (elim exE conjE) (simp only: sum.inject, (rule exI)+, erule sym)

lemma pitch_shape:
  assumes "extract_pitch_features lib sr audio = Inr d"
  shows "\<exists>v1 v2 v3 v4.
           d = [''pitch_mean'' \<mapsto> v1, ''pitch_std'' \<mapsto> v2, ''pitch_variance'' \<mapsto> v3,
                ''pitch_range'' \<mapsto> v4]"
proof -
  from assms obtain pitch_values where eq:
    "(if length pitch_values > 0 then
         Inr [''pitch_mean'' \<mapsto> np_mean lib pitch_values,
              ''pitch_std'' \<mapsto> np_std lib pitch_values,
              ''pitch_variance'' \<mapsto> np_var lib pitch_values,
              ''pitch_range'' \<mapsto> np_max lib pitch_values - np_min lib pitch_values]
       else
         Inr [''pitch_mean'' \<mapsto> 0.0,
              ''pitch_std'' \<mapsto> 0.0,
              ''pitch_variance'' \<mapsto> 0.0,
              ''pitch_range'' \<mapsto> 0.0]) = (Inr d :: py_exception + (string \<rightharpoonup> real))"
    unfolding extract_pitch_features_def exn_bind_Inr_iff
    by (elim exE conjE) (simp only: split_paired_all prod.case exn_bind_Inr_iff, elim exE conjE)
  then show ?thesis
  proof (cases "length pitch_values > 0")
    case True
    with eq have "[''pitch_mean'' \<mapsto> np_mean lib pitch_values,
              ''pitch_std'' \<mapsto> np_std lib pitch_values,
              ''pitch_variance'' \<mapsto> np_var lib pitch_values,
              ''pitch_range'' \<mapsto> np_max lib pitch_values - np_min lib pitch_values] = d"
      by (simp only: if_True sum.inject)
    then show ?thesis by - ((rule exI)+, erule sym)
  next
    case False
    with eq have "[''pitch_mean'' \<mapsto> 0.0, ''pitch_std'' \<mapsto> 0.0,
              ''pitch_variance'' \<mapsto> 0.0, ''pitch_range'' \<mapsto> 0.0] = d"
      by (simp only: if_False sum.inject)
    then show ?thesis by - ((rule exI)+, erule sym)
  qed
qed

lemma spectral_shape:
  assumes "extract_spectral_features lib sr audio = Inr d"
  shows "\<exists>v1 v2 v3 v4 v5 v6.
           d = [''spectral_flatness_mean'' \<mapsto> v1, ''spectral_flatness_std'' \<mapsto> v2,
                ''spectral_centroid_mean'' \<mapsto> v3, ''spectral_centroid_std'' \<mapsto> v4,
                ''spectral_rolloff_mean'' \<mapsto> v5, ''spectral_bandwidth_mean'' \<mapsto> v6]"
  using assms unfolding extract_spectral_features_def exn_bind_Inr_iff
  by (elim exE conjE) (simp only: sum.inject, (rule exI)+, erule sym)

lemma energy_shape:
  assumes "extract_energy_features lib sr audio = Inr d"
  shows "\<exists>v1 v2 v3 v4 v5.
           d = [''rms_mean'' \<mapsto> v1, ''rms_std'' \<mapsto> v2, ''rms_variance'' \<mapsto> v3,
                ''zcr_mean'' \<mapsto> v4, ''zcr_std'' \<mapsto> v5]"
  using assms unfolding extract_energy_features_def exn_bind_Inr_iff
  by (elim exE conjE) (simp only: sum.inject, (rule exI)+, erule sym)

lemma temporal_shape:
  assumes "extract_temporal_features lib sr audio = Inr d"
  shows "\<exists>v1 v2. d = [''energy_variation'' \<mapsto> v1, ''audio_duration'' \<mapsto> v2]"
proof -
  from assms obtain frames where eq:
    "(if sr = 0 then Inl (PyException ZeroDivisionError ''division by zero'')
      else Inr [''energy_variation'' \<mapsto>
                  np_std lib (sum_squares_axis0 frames)
                    / (np_mean lib (sum_squares_axis0 frames) + 1 / 10 ^ 8),
                ''audio_duration'' \<mapsto> real (length audio) / real sr])
     = (Inr d :: py_exception + (string \<rightharpoonup> real))"
    unfolding extract_temporal_features_def exn_bind_Inr_iff Let_def
    by (elim exE conjE)
  show ?thesis
  proof (cases "sr = 0")
    case True
    with eq show ?thesis by simp
  next
    case False
    with eq have "[''energy_variation'' \<mapsto>
                  np_std lib (sum_squares_axis0 frames)
                    / (np_mean lib (sum_squares_axis0 frames) + 1 / 10 ^ 8),
                ''audio_duration'' \<mapsto> real (length audio) / real sr] = d"
      by (simp only: if_False sum.inject)
    then show ?thesis by - ((rule exI)+, erule sym)
  qed
qed


lemma dom_feature_maps:
  "dom (Map.empty
          ++ [a1 \<mapsto> x1, a2 \<mapsto> x2, a3 \<mapsto> x3, a4 \<mapsto> x4, a5 \<mapsto> x5]
          ++ [b1 \<mapsto> y1, b2 \<mapsto> y2, b3 \<mapsto> y3, b4 \<mapsto> y4]
          ++ [c1 \<mapsto> z1, c2 \<mapsto> z2, c3 \<mapsto> z3, c4 \<mapsto> z4, c5 \<mapsto> z5, c6 \<mapsto> z6]
          ++ [e1 \<mapsto> u1, e2 \<mapsto> u2, e3 \<mapsto> u3, e4 \<mapsto> u4, e5 \<mapsto> u5]
          ++ [t1 \<mapsto> w1, t2 \<mapsto> w2])
   = set [a1, a2, a3, a4, a5, b1, b2, b3, b4, c1, c2, c3, c4, c5, c6,
          e1, e2, e3, e4, e5, t1, t2]"
  by (simp only: dom_map_add dom_fun_upd dom_empty option.distinct if_False set_simps)
     blast

lemma dom_all_features:
  assumes "extract_all_features lib sr audio = Inr features"
  shows "dom features = set feature_order"
proof -
  from assms obtain d1 d2 d3 d4 d5 where
    d: "extract_mfcc_features lib sr audio = Inr d1"
       "extract_pitch_features lib sr audio = Inr d2"
       "extract_spectral_features lib sr audio = Inr d3"
       "extract_energy_features lib sr audio = Inr d4"
       "extract_temporal_features lib sr audio = Inr d5"
    and f: "features = Map.empty ++ d1 ++ d2 ++ d3 ++ d4 ++ d5"
    unfolding extract_all_features_def Let_def exn_bind_Inr_iff
    by (elim exE conjE) auto
  from mfcc_shape [OF d(1)] pitch_shape [OF d(2)] spectral_shape [OF d(3)]
    energy_shape [OF d(4)] temporal_shape [OF d(5)]
  show ?thesis
    unfolding f feature_order_def
    by (elim exE) (simp only: dom_feature_maps)
qed

lemma lookup_all_dom:
  "set keys \<subseteq> dom features \<Longrightarrow>
     lookup_all features keys = Inr (map (\<lambda>k. the (features k)) keys)"
  by (induction keys) (auto simp add: exn_bind_def)

lemma map_of_zip_dom:
  assumes "dom m = set ks"
  shows "map_of (zip ks (map (\<lambda>k. the (m k)) ks)) = m"
proof
  fix k
  show "map_of (zip ks (map (\<lambda>k. the (m k)) ks)) k = m k"
  proof (cases "k \<in> set ks")
    case True
    then have "k \<in> dom m" using assms by simp
    then show ?thesis using True by (auto simp add: map_of_zip_map)
  next
    case False
    then have "m k = None" using assms by blast
    then show ?thesis using False by (simp add: map_of_zip_map)
  qed
qed


lemma flatten_const_array:
  "flatten (const_array r c v) = concat (replicate r (replicate c v))"
  by (simp add: flatten_def const_array_def map_replicate_const)

lemma sum_list_replicate_real:
  "sum_list (replicate c (v::real)) = real c * v"
  by (induction c) (simp_all add: algebra_simps)

lemma sum_list_concat_replicate:
  "sum_list (concat (replicate r (replicate c (v::real)))) = real r * (real c * v)"
  by (induction r) (simp_all add: sum_list_replicate_real algebra_simps)

lemma length_concat_replicate:
  "length (concat (replicate r (replicate c v))) = r * c"
  by (induction r) simp_all

lemma set_concat_replicate:
  "0 < r \<Longrightarrow> 0 < c \<Longrightarrow> set (concat (replicate r (replicate c v))) = {v}"
  by (cases r; cases c) auto

lemma map_concat_replicate:
  "map f (concat (replicate r (replicate c v))) = concat (replicate r (replicate c (f v)))"
  by (induction r) simp_all

lemma stub_mfcc:
  "extract_mfcc_features stub_dsp 16000 a =
     Inr [''mfcc_mean'' \<mapsto> 1, ''mfcc_std'' \<mapsto> 0, ''mfcc_var'' \<mapsto> 0,
          ''mfcc_max'' \<mapsto> 1, ''mfcc_min'' \<mapsto> 1]"
  by (simp add: extract_mfcc_features_def stub_dsp_def exn_bind_def flatten_const_array
        sum_list_concat_replicate length_concat_replicate set_concat_replicate
        map_concat_replicate)


lemma upt_2: "[0..<2] = [0, 1]" by (simp add: upt_rec)

lemma upt_3: "[0..<3] = [0, 1, 2]" by (simp add: upt_rec)

lemma stub_pitch_loop:
  "pitch_loop (const_array 3 2 220) (const_array 3 2 1) [0, 1] [] = Inr [220, 220]"
  by (simp add: exn_bind_def column_def item_def argmax_def const_array_def upt_3)

lemma stub_pitch:
  "extract_pitch_features stub_dsp 16000 a =
     Inr [''pitch_mean'' \<mapsto> 220, ''pitch_std'' \<mapsto> 0, ''pitch_variance'' \<mapsto> 0,
          ''pitch_range'' \<mapsto> 0]"
proof -
  have l: "pitch_loop (const_array 3 2 220) (const_array 3 2 1)
             [0..<shape1 (const_array 3 2 220)] [] = Inr [220, 220]"
    using stub_pitch_loop by (simp add: const_array_def upt_2)
  show ?thesis
    by (simp add: extract_pitch_features_def stub_dsp_def exn_bind_simps l)
qed

lemma stub_spectral:
  "extract_spectral_features stub_dsp 16000 a =
     Inr [''spectral_flatness_mean'' \<mapsto> 0.05, ''spectral_flatness_std'' \<mapsto> 0,
          ''spectral_centroid_mean'' \<mapsto> 1500, ''spectral_centroid_std'' \<mapsto> 0,
          ''spectral_rolloff_mean'' \<mapsto> 3000, ''spectral_bandwidth_mean'' \<mapsto> 1000]"
  by (simp add: extract_spectral_features_def stub_dsp_def exn_bind_def flatten_const_array
        sum_list_replicate_real)

lemma stub_energy:
  "extract_energy_features stub_dsp 16000 a =
     Inr [''rms_mean'' \<mapsto> 0.1, ''rms_std'' \<mapsto> 0, ''rms_variance'' \<mapsto> 0,
          ''zcr_mean'' \<mapsto> 0.01, ''zcr_std'' \<mapsto> 0]"
  by (simp add: extract_energy_features_def stub_dsp_def exn_bind_def flatten_const_array
        sum_list_replicate_real)

lemma stub_temporal:
  "extract_temporal_features stub_dsp 16000 (replicate 16000 0) =
     Inr [''energy_variation'' \<mapsto> 0, ''audio_duration'' \<mapsto> 1]"
  by (simp add: extract_temporal_features_def stub_dsp_def exn_bind_def sum_squares_axis0_def
        const_array_def upt_2)

lemma stub_all_features:
  "extract_all_features stub_dsp 16000 (replicate 16000 0) =
     Inr (Map.empty
          ++ [''mfcc_mean'' \<mapsto> 1, ''mfcc_std'' \<mapsto> 0, ''mfcc_var'' \<mapsto> 0,
              ''mfcc_max'' \<mapsto> 1, ''mfcc_min'' \<mapsto> 1]
          ++ [''pitch_mean'' \<mapsto> 220, ''pitch_std'' \<mapsto> 0, ''pitch_variance'' \<mapsto> 0,
              ''pitch_range'' \<mapsto> 0]
          ++ [''spectral_flatness_mean'' \<mapsto> 0.05, ''spectral_flatness_std'' \<mapsto> 0,
              ''spectral_centroid_mean'' \<mapsto> 1500, ''spectral_centroid_std'' \<mapsto> 0,
              ''spectral_rolloff_mean'' \<mapsto> 3000, ''spectral_bandwidth_mean'' \<mapsto> 1000]
          ++ [''rms_mean'' \<mapsto> 0.1, ''rms_std'' \<mapsto> 0, ''rms_variance'' \<mapsto> 0,
              ''zcr_mean'' \<mapsto> 0.01, ''zcr_std'' \<mapsto> 0]
          ++ [''energy_variation'' \<mapsto> 0, ''audio_duration'' \<mapsto> 1])"
  unfolding extract_all_features_def Let_def stub_mfcc stub_pitch stub_spectral stub_energy
    stub_temporal exn_bind_simps ..

lemma stub_feature_vector:
  "get_feature_vector stub_dsp 16000 (replicate 16000 0) =
     Inr [1, 0, 0, 1, 1, 220, 0, 0, 0, 0.05, 0, 1500, 0, 3000, 1000, 0.1, 0, 0, 0.01, 0, 0, 1]"
  unfolding get_feature_vector_def stub_all_features exn_bind_simps feature_order_def
  by (simp add: exn_bind_def map_add_def)


lemma argmax_from_bound:
  "best_i < i \<Longrightarrow> argmax_from xs i best best_i < i + length xs"
proof (induction xs arbitrary: i best best_i)
  case Nil
  then show ?case by simp
next
  case (Cons x xs)
  have a: "argmax_from xs (Suc i) x i < Suc i + length xs"
    by (rule Cons.IH) simp
  have b: "argmax_from xs (Suc i) best best_i < Suc i + length xs"
    by (rule Cons.IH) (use Cons.prems in simp)
  from a b show ?case by simp
qed

lemma argmax_returns:
  "xs \<noteq> [] \<Longrightarrow> \<exists>i. argmax xs = Inr i \<and> i < length xs"
  using argmax_from_bound [of 0 1]
  by (cases xs) (simp_all add: argmax_def)

text \<open>
  On arrays of one shape with at least one row, as \<open>librosa.piptrack\<close> returns
  them, the loop raises nothing.
\<close>

lemma pitch_loop_returns:
  assumes "0 < shape0 magnitudes" and "shape0 magnitudes \<le> shape0 pitches"
    and "list_all (\<lambda>t. t < shape1 magnitudes \<and> t < shape1 pitches) ts"
  shows "\<exists>vs. pitch_loop pitches magnitudes ts pitch_values = Inr vs"
  using assms(3)
proof (induction ts arbitrary: pitch_values)
  case Nil
  then show ?case by simp
next
  case (Cons t ts)
  then have t: "t < shape1 magnitudes" "t < shape1 pitches" by simp_all
  have "map (\<lambda>i. entry magnitudes i t) [0..<shape0 magnitudes] \<noteq> []"
    using assms(1) by simp
  from argmax_returns [OF this] obtain index where
    i: "argmax (map (\<lambda>i. entry magnitudes i t) [0..<shape0 magnitudes]) = Inr index"
       "index < shape0 magnitudes"
    by auto
  have "index < shape0 pitches" using i(2) assms(2) by simp
  with t i Cons show ?case
    by (simp add: column_def item_def exn_bind_simps)
qed

text \<open>
  C5. \<open>get_feature_vector\<close> returns exactly when \<open>extract_all_features\<close>
  does (a library call that raises leaves both alike); its result is then a vector
  of 22 scalars whose i-th entry is the value \<open>extract_all_features\<close> gives to
  the i-th name of the fixed order \<open>mfcc_mean\<close> ... \<open>audio_duration\<close>.  That
  order is the list of feature names of the classifier, and zipping the names with
  the vector gives back the dictionary of features.
\<close>

theorem feature_vector_round_trip:
  "feature_order = feature_names
   \<and> length feature_order = 22
   \<and> (case extract_all_features lib sr audio of
        Inl e \<Rightarrow> get_feature_vector lib sr audio = Inl e
      | Inr features \<Rightarrow>
          (\<exists>v. get_feature_vector lib sr audio = Inr v
               \<and> length v = 22
               \<and> map Some v = map features feature_order
               \<and> map_of (zip feature_names v) = features))"
proof -
  have names: "feature_order = feature_names"
    by (simp only: feature_order_def feature_names_def)
  have len: "length feature_order = 22"
    by (simp add: feature_order_def)
  have trip: "\<exists>v. get_feature_vector lib sr audio = Inr v
               \<and> length v = 22
               \<and> map Some v = map features feature_order
               \<and> map_of (zip feature_names v) = features"
    if ok: "extract_all_features lib sr audio = Inr features" for features
  proof -
    have d: "dom features = set feature_order" by (rule dom_all_features [OF ok])
    define v where "v = map (\<lambda>k. the (features k)) feature_order"
    have g: "get_feature_vector lib sr audio = Inr v"
      unfolding get_feature_vector_def ok exn_bind_simps v_def
      by (rule lookup_all_dom) (simp add: d)
    have s: "map Some v = map features feature_order"
    proof -
      have "Some (the (features k)) = features k" if "k \<in> set feature_order" for k
      proof -
        from that d have "k \<in> dom features" by simp
        then show ?thesis by auto
      qed
      then show ?thesis unfolding v_def by simp
    qed
    have z: "map_of (zip feature_names v) = features"
      unfolding names [symmetric] v_def by (rule map_of_zip_dom [OF d])
    from g len s z show ?thesis by (simp add: v_def)
  qed
  show ?thesis
  proof (cases "extract_all_features lib sr audio")
    case (Inl e)
    then have "get_feature_vector lib sr audio = Inl e"
      by (simp add: get_feature_vector_def exn_bind_simps)
    with names len Inl show ?thesis by simp
  next
    case (Inr features)
    from trip [OF Inr] names len Inr show ?thesis by simp
  qed
qed

theorem feature_vector_round_trip_witness:
  "get_feature_vector stub_dsp 16000 (replicate 16000 0) =
     Inr [1, 0, 0, 1, 1, 220, 0, 0, 0, 0.05, 0, 1500, 0, 3000, 1000, 0.1, 0, 0, 0.01, 0, 0, 1]
   \<and> (\<exists>features. extract_all_features stub_dsp 16000 (replicate 16000 0) = Inr features
        \<and> map_of (zip feature_names
             [1, 0, 0, 1, 1, 220, 0, 0, 0, 0.05, 0, 1500, 0, 3000, 1000, 0.1, 0, 0, 0.01, 0, 0, 1])
           = features)"
  using feature_vector_round_trip [of stub_dsp 16000 "replicate 16000 0"]
  by (simp add: stub_all_features stub_feature_vector)

section \<open>utils/db.py and utils/firebase_db.py: the persistence adapters\<close>

text \<open>
  The documents of the collections \<open>predictions\<close> and \<open>users\<close>.  A
  \<open>datetime\<close> is a count of microseconds.  \<open>log_prediction\<close> writes no
  \<open>user_email\<close> and no \<open>filename\<close>; \<open>metadata or {}\<close> is \<open>None\<close> for the
  empty dictionary.
\<close>

record prediction_metadata =
  md_audio_duration :: real
  md_probabilities :: "string \<rightharpoonup> real"

record prediction_document =
  p_user_email :: "string option"
  p_filename :: "string option"
  p_timestamp :: int
  p_prediction :: string
  p_confidence :: real
  p_explanation :: "string \<rightharpoonup> string"
  p_features :: "string \<rightharpoonup> real"
  p_metadata :: "prediction_metadata option"

record user_document =
  u_id :: string
  u_email :: string
  u_password_hash :: string
  u_api_key :: string
  u_created_at :: int
  u_total_requests :: nat

text \<open>
  The state of a \<open>DatabaseManager\<close>: \<open>self.db\<close> (here its collection
  \<open>users\<close>) and \<open>self.collection\<close> are \<open>None\<close> until \<open>connect\<close> succeeds.
  The MongoDB server is outside the repository: \<open>db_raises name\<close> says whether a
  driver call on the collection \<open>name\<close> raises, and \<open>db_object_id n\<close> is the identifier the
  server gives to the document inserted into a collection of \<open>n\<close> documents.
\<close>

record database_manager =
  db_users :: "user_document list option"
  db_collection :: "prediction_document list option"
  db_raises :: "string \<Rightarrow> bool"
  db_object_id :: "nat \<Rightarrow> string"

definition log_prediction ::
  "database_manager \<Rightarrow> int \<Rightarrow> string \<Rightarrow> real \<Rightarrow> (string \<rightharpoonup> real) \<Rightarrow> (string \<rightharpoonup> string)
     \<Rightarrow> prediction_metadata option \<Rightarrow> string option \<times> database_manager" where
  "log_prediction dbm utcnow prediction confidence features explanation metadata =
     (case db_collection dbm of
        None \<Rightarrow> (None, dbm)
      | Some docs \<Rightarrow>
          (let document =
                 \<lparr>p_user_email = None, p_filename = None, p_timestamp = utcnow,
                  p_prediction = prediction, p_confidence = confidence,
                  p_explanation = explanation, p_features = features,
                  p_metadata = metadata\<rparr>
           in if db_raises dbm ''predictions'' then (None, dbm)
              else (Some (db_object_id dbm (length docs)),
                    dbm\<lparr>db_collection := Some (docs @ [document])\<rparr>)))"

definition get_user_by_email :: "database_manager \<Rightarrow> string \<Rightarrow> user_document option" where
  "get_user_by_email dbm email =
     (case db_users dbm of
        None \<Rightarrow> None
      | Some users \<Rightarrow>
          (if db_raises dbm ''users'' then None else find (\<lambda>u. u_email u = email) users))"

definition get_user_by_api_key :: "database_manager \<Rightarrow> string \<Rightarrow> user_document option" where
  "get_user_by_api_key dbm api_key =
     (case db_users dbm of
        None \<Rightarrow> None
      | Some users \<Rightarrow>
          (if db_raises dbm ''users'' then None else find (\<lambda>u. u_api_key u = api_key) users))"

text \<open>
  Python's \<open>round(x, ndigits)\<close> on the real number: to the nearest multiple of
  \<open>10 ^ -ndigits\<close>, a tie to the even one.
\<close>

definition round_half_even :: "real \<Rightarrow> int" where
  "round_half_even x =
     (let f = \<lfloor>x\<rfloor>; r = x - of_int f
      in if r < 1 / 2 then f else if r > 1 / 2 then f + 1 else if even f then f else f + 1)"

definition py_round :: "real \<Rightarrow> nat \<Rightarrow> real" where
  "py_round x ndigits = of_int (round_half_even (x * 10 ^ ndigits)) / 10 ^ ndigits"

text \<open>
  The result of \<open>get_user_stats\<close>; \<open>None\<close> stands for the empty dictionary.
  The timestamp of the last prediction is kept as it is (the source formats it).
\<close>

record user_stats =
  total_tests :: nat
  ai_count :: nat
  human_count :: nat
  avg_confidence :: real
  last_prediction :: "(string \<times> real \<times> int) option"
  trend :: string

definition no_data_stats :: user_stats where
  "no_data_stats =
     \<lparr>total_tests = 0, ai_count = 0, human_count = 0, avg_confidence = 0,
      last_prediction = None, trend = ''No data''\<rparr>"

text \<open>
  \<open>find(...).sort('timestamp', -1)\<close>: newest first.  MongoDB leaves the order of
  equal timestamps open; here they keep their insertion order.
\<close>

definition sort_newest_first :: "prediction_document list \<Rightarrow> prediction_document list" where
  "sort_newest_first docs = sort_key (\<lambda>d. - p_timestamp d) docs"

definition mongo_trend :: "prediction_document list \<Rightarrow> string" where
  "mongo_trend recent_5 =
     (if length recent_5 \<ge> 10 then
        (let recent_avg = sum_list (map p_confidence (take 5 recent_5)) / 5;
             previous_avg = sum_list (map p_confidence (take 5 (drop 5 recent_5))) / 5
         in if recent_avg > previous_avg + 0.05 then ''Improving''
            else if recent_avg < previous_avg - 0.05 then ''Declining''
            else ''Stable'')
      else ''Stable'')"

definition DatabaseManager_get_user_stats :: "database_manager \<Rightarrow> string \<Rightarrow> user_stats option" where
  "DatabaseManager_get_user_stats dbm user_email =
     (case db_collection dbm of
        None \<Rightarrow> None
      | Some docs \<Rightarrow>
          (if db_raises dbm ''predictions'' then None
           else
             (let mine = filter (\<lambda>d. p_user_email d = Some user_email) docs;
                  total = length mine
              in if total = 0 then Some no_data_stats
                 else
                   (let ai = length (filter (\<lambda>d. p_prediction d = ''AI_GENERATED'') mine);
                        human = length (filter (\<lambda>d. p_prediction d = ''HUMAN'') mine);
                        last_pred = (case sort_newest_first mine of [] \<Rightarrow> None | d # _ \<Rightarrow> Some d);
                        avg = sum_list (map p_confidence mine) / real total;
                        recent_5 = take 10 (sort_newest_first mine)
                    in Some \<lparr>total_tests = total, ai_count = ai, human_count = human,
                             avg_confidence = py_round avg 3,
                             last_prediction =
                               map_option (\<lambda>d. (p_prediction d, p_confidence d, p_timestamp d))
                                 last_pred,
                             trend = mongo_trend recent_5\<rparr>))))"

text \<open>
  The state of a \<open>FirebaseManager\<close>: \<open>self.db\<close> (here its collection
  \<open>predictions\<close>) is \<open>None\<close> until \<open>connect\<close> succeeds; \<open>fb_raises\<close> says
  whether a Firestore call raises.
\<close>

record firebase_manager =
  fb_predictions :: "prediction_document list option"
  fb_raises :: bool

text \<open>The loop over the results: counts, the sum of the confidences, the newest document.\<close>

fun firebase_stats_loop ::
  "prediction_document list \<Rightarrow> nat \<Rightarrow> nat \<Rightarrow> real \<Rightarrow> prediction_document option
     \<Rightarrow> nat \<times> nat \<times> real \<times> prediction_document option" where
  "firebase_stats_loop [] ai human total_confidence last_pred =
     (ai, human, total_confidence, last_pred)"
| "firebase_stats_loop (d # ds) ai human total_confidence last_pred =
     firebase_stats_loop ds
       (if p_prediction d = ''AI_GENERATED'' then ai + 1 else ai)
       (if p_prediction d = ''AI_GENERATED'' then human else human + 1)
       (total_confidence + p_confidence d)
       (case last_pred of
          None \<Rightarrow> Some d
        | Some l \<Rightarrow> if p_timestamp d > p_timestamp l then Some d else Some l)"

definition FirebaseManager_get_user_stats :: "firebase_manager \<Rightarrow> string \<Rightarrow> user_stats option" where
  "FirebaseManager_get_user_stats fbm user_email =
     (case fb_predictions fbm of
        None \<Rightarrow> None
      | Some docs \<Rightarrow>
          (if fb_raises fbm then None
           else
             (let results = filter (\<lambda>d. p_user_email d = Some user_email) docs;
                  total = length results
              in if total = 0 then Some no_data_stats
                 else
                   (case firebase_stats_loop results 0 0 0 None of
                      (ai, human, total_confidence, last_pred) \<Rightarrow>
                        (let avg = (if total > 0 then total_confidence / real total else 0)
                         in Some \<lparr>total_tests = total, ai_count = ai, human_count = human,
                                  avg_confidence = py_round avg 3,
                                  last_prediction =
                                    map_option
                                      (\<lambda>d. (p_prediction d, p_confidence d, p_timestamp d))
                                      last_pred,
                                  trend = ''Stable''\<rparr>)))))"

text \<open>
  Ten predictions of one user, as \<open>log_user_prediction\<close> writes them: the five
  older ones with confidence 0.5, the five newer ones with confidence 0.9.
\<close>

definition user_prediction :: "string \<Rightarrow> int \<Rightarrow> string \<Rightarrow> real \<Rightarrow> prediction_document" where
  "user_prediction user_email utcnow prediction confidence =
     \<lparr>p_user_email = Some user_email, p_filename = Some ''clip.mp3'', p_timestamp = utcnow,
      p_prediction = prediction, p_confidence = confidence,
      p_explanation = Map.empty, p_features = Map.empty, p_metadata = None\<rparr>"

definition ten_predictions :: "prediction_document list" where
  "ten_predictions =
     map (\<lambda>t. user_prediction ''a@b.co'' t ''HUMAN'' (if t \<le> 5 then 0.5 else 0.9))
       [1, 2, 3, 4, 5, 6, 7, 8, 9, 10]"

section \<open>Properties of the persistence adapters\<close>

lemma firebase_trend_constant:
  "FirebaseManager_get_user_stats fbm user_email = Some stats \<Longrightarrow>
     trend stats = ''Stable'' \<or> trend stats = ''No data''"
  by (auto simp add: FirebaseManager_get_user_stats_def no_data_stats_def Let_def
        split: option.splits if_splits prod.splits)

text \<open>
  C9. For a user with at least 10 prediction records both adapters are to compute
  the trend over the last 10 records, comparing two windows of 5, and to return the
  same value.  They do not: on the ten records below (five at confidence 0.5, then
  five at 0.9) the Mongo adapter answers \<open>Improving\<close> and the Firebase adapter,
  which computes no trend and always puts \<open>Stable\<close>, answers \<open>Stable\<close>.
\<close>

theorem adapters_disagree_on_trend:
  "map_option trend
     (DatabaseManager_get_user_stats
        \<lparr>db_users = Some [], db_collection = Some ten_predictions, db_raises = (\<lambda>name. False),
         db_object_id = (\<lambda>n. ''id'')\<rparr> ''a@b.co'') = Some ''Improving''
   \<and> map_option trend
     (FirebaseManager_get_user_stats
        \<lparr>fb_predictions = Some ten_predictions, fb_raises = False\<rparr> ''a@b.co'')
     = Some ''Stable''
   \<and> length (filter (\<lambda>d. p_user_email d = Some ''a@b.co'') ten_predictions) = 10"
  by (simp add: DatabaseManager_get_user_stats_def FirebaseManager_get_user_stats_def
        ten_predictions_def user_prediction_def sort_newest_first_def mongo_trend_def Let_def)

section \<open>utils/errors.py: the registry of error messages\<close>

record error_info =
  info_message :: string
  info_code :: string

definition ERROR_MESSAGES :: "(string \<times> error_info) list" where
  "ERROR_MESSAGES =
     [(''AUDIO_TOO_SHORT'',
         \<lparr>info_message = ''Audio must be at least 1 second long'',
          info_code = ''AUDIO_TOO_SHORT''\<rparr>),
      (''AUDIO_TOO_LONG'',
         \<lparr>info_message = ''Audio must be less than 60 seconds long'',
          info_code = ''AUDIO_TOO_LONG''\<rparr>),
      (''UNSUPPORTED_FORMAT'',
         \<lparr>info_message = ''Only MP3 format is supported'',
          info_code = ''UNSUPPORTED_FORMAT''\<rparr>),
      (''INVALID_BASE64'',
         \<lparr>info_message = ''Invalid Base64 encoding'', info_code = ''INVALID_BASE64''\<rparr>),
      (''DECODE_ERROR'',
         \<lparr>info_message = ''Failed to decode audio file'', info_code = ''DECODE_ERROR''\<rparr>),
      (''PROCESSING_ERROR'',
         \<lparr>info_message = ''Failed to process audio'', info_code = ''PROCESSING_ERROR''\<rparr>),
      (''FEATURE_EXTRACTION_ERROR'',
         \<lparr>info_message = ''Failed to extract audio features'',
          info_code = ''FEATURE_EXTRACTION_ERROR''\<rparr>),
      (''PREDICTION_ERROR'',
         \<lparr>info_message = ''Failed to make prediction'', info_code = ''PREDICTION_ERROR''\<rparr>),
      (''UNAUTHORIZED'',
         \<lparr>info_message = ''Invalid or missing authentication'',
          info_code = ''UNAUTHORIZED''\<rparr>),
      (''INVALID_CREDENTIALS'',
         \<lparr>info_message = ''Invalid email or password'',
          info_code = ''INVALID_CREDENTIALS''\<rparr>),
      (''USER_EXISTS'',
         \<lparr>info_message = ''User with this email already exists'',
          info_code = ''USER_EXISTS''\<rparr>),
      (''USER_NOT_FOUND'',
         \<lparr>info_message = ''User not found'', info_code = ''USER_NOT_FOUND''\<rparr>),
      (''INVALID_TOKEN'',
         \<lparr>info_message = ''Invalid or expired token'', info_code = ''INVALID_TOKEN''\<rparr>),
      (''WEAK_PASSWORD'',
         \<lparr>info_message = ''Password must be at least 8 characters long'',
          info_code = ''WEAK_PASSWORD''\<rparr>),
      (''INVALID_EMAIL'',
         \<lparr>info_message = ''Invalid email format'', info_code = ''INVALID_EMAIL''\<rparr>)]"

text \<open>
  \<open>create_error_response\<close>: the dictionary of the response, as the list of its
  items in insertion order.  A code that is not in the registry gets the default
  entry.  \<open>if details\<close> holds for a string that is not empty.
\<close>

definition create_error_response :: "string \<Rightarrow> string option \<Rightarrow> (string \<times> string) list" where
  "create_error_response code details_arg =
     (let info = (case map_of ERROR_MESSAGES code of
                    None \<Rightarrow> \<lparr>info_message = ''An unexpected error occurred'',
                              info_code = ''UNKNOWN_ERROR''\<rparr>
                  | Some i \<Rightarrow> i);
          response = [(''error'', info_code info), (''message'', info_message info)]
      in case details_arg of
           None \<Rightarrow> response
         | Some d \<Rightarrow> if d = [] then response else response @ [(''details'', d)])"

section \<open>main.py: the HTTP layer\<close>

datatype http_detail = DetailDict "(string \<times> string) list" | DetailStr string

record http_exception =
  status_code :: nat
  detail :: http_detail

definition HTTPException :: "nat \<Rightarrow> http_detail \<Rightarrow> http_exception" where
  "HTTPException s d = \<lparr>status_code = s, detail = d\<rparr>"

text \<open>
  \<open>utils/auth.py\<close> is not among the sources: the three functions of
  \<open>auth_manager\<close> that \<open>main.py\<close> calls are parameters.  A token payload is the
  list of the items of its dictionary.
\<close>

record auth_manager =
  decode_access_token :: "string \<Rightarrow> (string \<times> string) list option"
  verify_password :: "string \<Rightarrow> string \<Rightarrow> py_exception + bool"
  create_access_token :: "(string \<times> string) list \<Rightarrow> string"

text \<open>The module-level objects of \<open>main.py\<close>.\<close>

record 'seg components =
  API_KEY :: string
  c_auth_manager :: auth_manager
  c_audio_lib :: "'seg audio_lib"
  c_dsp_lib :: dsp_lib
  c_voice_classifier :: classifier_artifacts

record explanation_model =
  em_pitch_variance :: string
  em_spectral_smoothness :: string
  em_micro_variations :: string

record voice_detection_response =
  r_prediction :: string
  r_confidence :: real
  r_explanation :: explanation_model

text \<open>\<open>s.split(sep)\<close> for a separator of one character.\<close>

fun split_on :: "char \<Rightarrow> string \<Rightarrow> string list" where
  "split_on sep [] = [[]]"
| "split_on sep (x # xs) =
     (if x = sep then [] # split_on sep xs
      else (case split_on sep xs of
              [] \<Rightarrow> [[x]]
            | w # ws \<Rightarrow> (x # w) # ws))"

text \<open>A header that was not sent is \<open>None\<close>; \<open>None\<close> and the empty string are false.\<close>

definition truthy :: "string option \<Rightarrow> bool" where
  "truthy h = (case h of None \<Rightarrow> False | Some s \<Rightarrow> s \<noteq> [])"

definition startswith :: "string \<Rightarrow> string \<Rightarrow> bool" where
  "startswith s p = (take (length p) s = p)"

text \<open>
  The handlers at the end of \<open>detect_voice\<close>, for an exception that is neither an
  \<open>HTTPException\<close> nor a \<open>VoiceDetectionError\<close>.
\<close>

definition handle_exception :: "py_exception \<Rightarrow> http_exception" where
  "handle_exception e =
     (if class_of e = ValueError then HTTPException 400 (DetailStr (str_of e))
      else if class_of e = FileNotFoundError then
        HTTPException 500 (DetailStr ''Model not initialized. Please contact administrator.'')
      else HTTPException 500 (DetailStr ''An unexpected error occurred''))"

text \<open>
  Step 1 of \<open>detect_voice\<close> (lines 263 to 305): the user's email and identifier,
  or the \<open>HTTPException\<close> raised.
\<close>

definition check_authentication ::
  "'seg components \<Rightarrow> database_manager \<Rightarrow> string option \<Rightarrow> string option
     \<Rightarrow> http_exception + (string \<times> string option)" where
  "check_authentication c dbm api_key authorization =
     (if truthy authorization \<and> startswith (the authorization) ''Bearer '' then
        (case py_index (split_on CHR '' '' (the authorization)) 1 of
           Inl e \<Rightarrow> Inl (handle_exception e)
         | Inr token \<Rightarrow>
             (case decode_access_token (c_auth_manager c) token of
                None \<Rightarrow> Inl (HTTPException 401 (DetailDict (create_error_response ''INVALID_TOKEN'' None)))
              | Some payload \<Rightarrow>
                  if payload = [] then
                    Inl (HTTPException 401 (DetailDict (create_error_response ''INVALID_TOKEN'' None)))
                  else if \<not> truthy (map_of payload ''sub'') then
                    Inl (HTTPException 401 (DetailDict (create_error_response ''INVALID_TOKEN'' None)))
                  else
                    (case get_user_by_email dbm (the (map_of payload ''sub'')) of
                       None \<Rightarrow>
                         Inl (HTTPException 404
                                (DetailDict (create_error_response ''USER_NOT_FOUND'' None)))
                     | Some user \<Rightarrow> Inr (the (map_of payload ''sub''), Some (u_id user)))))
      else if truthy api_key then
        (if the api_key \<noteq> API_KEY c then
           (case get_user_by_api_key dbm (the api_key) of
              None \<Rightarrow>
                Inl (HTTPException 401
                       (DetailDict (create_error_response ''INVALID_API_KEY'' None)))
            | Some user \<Rightarrow> Inr (u_email user, Some (u_id user)))
         else Inr (''anonymous'', None))
      else
        Inl (HTTPException 401
               (DetailDict (create_error_response ''AUTHENTICATION_REQUIRED'' None))))"

text \<open>
  \<open>ExplanationModel(**explanation)\<close> and \<open>VoiceDetectionResponse(...)\<close>: pydantic
  raises a \<open>ValidationError\<close>, a \<open>ValueError\<close>, on a missing field and on a
  confidence outside 0 to 1.
\<close>

definition make_ExplanationModel :: "(string \<rightharpoonup> string) \<Rightarrow> py_exception + explanation_model" where
  "make_ExplanationModel explanation =
     (case (explanation ''pitch_variance'', explanation ''spectral_smoothness'',
            explanation ''micro_variations'') of
        (Some a, Some b, Some m) \<Rightarrow>
          Inr \<lparr>em_pitch_variance = a, em_spectral_smoothness = b, em_micro_variations = m\<rparr>
      | _ \<Rightarrow> Inl (PyException ValueError ''validation error for ExplanationModel''))"

definition make_VoiceDetectionResponse ::
  "string \<Rightarrow> real \<Rightarrow> explanation_model \<Rightarrow> py_exception + voice_detection_response" where
  "make_VoiceDetectionResponse prediction confidence explanation =
     (if 0 \<le> confidence \<and> confidence \<le> 1 then
        Inr \<lparr>r_prediction = prediction, r_confidence = confidence, r_explanation = explanation\<rparr>
      else Inl (PyException ValueError ''validation error for VoiceDetectionResponse''))"

text \<open>
  Steps 2 to 6 of \<open>detect_voice\<close> with the handlers applied: the response or the
  \<open>HTTPException\<close>, and the database and the temporary directory afterwards.  The
  extractor runs twice on the audio, as in the source.
\<close>

definition detect_voice_steps ::
  "'seg components \<Rightarrow> database_manager \<Rightarrow> filesystem \<Rightarrow> int \<Rightarrow> string
     \<Rightarrow> (http_exception + voice_detection_response) \<times> database_manager \<times> filesystem" where
  "detect_voice_steps c dbm fs utcnow audio_base64 =
     (if audio_base64 = [] then
        (Inl (HTTPException 400 (DetailDict (create_error_response ''MISSING_AUDIO'' None))),
         dbm, fs)
      else
        (case process_base64_audio (c_audio_lib c) 16000 fs audio_base64 of
           (Inl e, fs') \<Rightarrow> (Inl (HTTPException 400 (DetailStr (message e))), dbm, fs')
         | (Inr (audio, sr), fs') \<Rightarrow>
             (case get_feature_vector (c_dsp_lib c) 16000 audio of
                Inl e \<Rightarrow> (Inl (handle_exception e), dbm, fs')
              | Inr feature_vector \<Rightarrow>
             (case extract_all_features (c_dsp_lib c) 16000 audio of
                Inl e \<Rightarrow> (Inl (handle_exception e), dbm, fs')
              | Inr features_dict \<Rightarrow>
             (case predict (c_voice_classifier c) feature_vector of
                Inl e \<Rightarrow> (Inl (handle_exception e), dbm, fs')
              | Inr (prediction, confidence, probabilities) \<Rightarrow>
             (let explanation = generate_explanation features_dict prediction
              in case py_index probabilities 0 of
                   Inl e \<Rightarrow> (Inl (handle_exception e), dbm, fs')
                 | Inr p0 \<Rightarrow>
                (case py_index probabilities 1 of
                   Inl e \<Rightarrow> (Inl (handle_exception e), dbm, fs')
                 | Inr p1 \<Rightarrow>
                (let metadata =
                       \<lparr>md_audio_duration = dict_get features_dict ''audio_duration'' 0,
                        md_probabilities = [''ai_generated'' \<mapsto> p0, ''human'' \<mapsto> p1]\<rparr>;
                     (logged, dbm') =
                       log_prediction dbm utcnow prediction confidence features_dict
                         explanation (Some metadata)
                 in case make_ExplanationModel explanation of
                      Inl e \<Rightarrow> (Inl (handle_exception e), dbm', fs')
                    | Inr em \<Rightarrow>
                   (case make_VoiceDetectionResponse prediction (py_round confidence 2) em of
                      Inl e \<Rightarrow> (Inl (handle_exception e), dbm', fs')
                    | Inr response \<Rightarrow> (Inr response, dbm', fs'))))))))))"

definition detect_voice ::
  "'seg components \<Rightarrow> database_manager \<Rightarrow> filesystem \<Rightarrow> int \<Rightarrow> string
     \<Rightarrow> string option \<Rightarrow> string option
     \<Rightarrow> (http_exception + voice_detection_response) \<times> database_manager \<times> filesystem" where
  "detect_voice c dbm fs utcnow audio_base64 api_key authorization =
     (case check_authentication c dbm api_key authorization of
        Inl e \<Rightarrow> (Inl e, dbm, fs)
      | Inr (user_email, user_id) \<Rightarrow> detect_voice_steps c dbm fs utcnow audio_base64)"

record token_response =
  access_token :: string
  token_type :: string
  tr_user_email :: string
  tr_api_key :: string

definition login_user ::
  "'seg components \<Rightarrow> database_manager \<Rightarrow> string \<Rightarrow> string \<Rightarrow> http_exception + token_response" where
  "login_user c dbm email password =
     (case get_user_by_email dbm email of
        None \<Rightarrow>
          Inl (HTTPException 401 (DetailDict (create_error_response ''INVALID_CREDENTIALS'' None)))
      | Some user \<Rightarrow>
          (case verify_password (c_auth_manager c) password (u_password_hash user) of
             Inl e \<Rightarrow> Inl (HTTPException 500 (DetailStr ''Login failed''))
           | Inr ok \<Rightarrow>
               if \<not> ok then
                 Inl (HTTPException 401
                        (DetailDict (create_error_response ''INVALID_CREDENTIALS'' None)))
               else
                 Inr \<lparr>access_token =
                        create_access_token (c_auth_manager c) [(''sub'', u_email user)],
                      token_type = ''bearer'',
                      tr_user_email = u_email user,
                      tr_api_key = u_api_key user\<rparr>))"


text \<open>
  A small installation, used to run the endpoints on concrete requests: one
  registered user, the process-wide key \<open>secret-key\<close>, a token service that
  knows one token, and the stand-ins for the libraries.
\<close>

definition demo_auth :: auth_manager where
  "demo_auth =
     \<lparr>decode_access_token =
        (\<lambda>token. if token = ''tok-alice'' then Some [(''sub'', ''alice@example.com'')] else None),
      verify_password = (\<lambda>password hash. Inr (hash = ''hash-of-'' @ password)),
      create_access_token = (\<lambda>data. ''tok-alice'')\<rparr>"

definition demo_components :: "unit components" where
  "demo_components =
     \<lparr>API_KEY = ''secret-key'',
      c_auth_manager = demo_auth,
      c_audio_lib = stub_lib (Inr ''RIFF'') (Inr (replicate 16000 0, 16000)),
      c_dsp_lib = stub_dsp,
      c_voice_classifier = stub_classifier\<rparr>"

definition alice :: user_document where
  "alice =
     \<lparr>u_id = ''u1'', u_email = ''alice@example.com'', u_password_hash = ''hash-of-password1'',
      u_api_key = ''key-alice'', u_created_at = 0, u_total_requests = 0\<rparr>"

definition demo_db :: database_manager where
  "demo_db =
     \<lparr>db_users = Some [alice], db_collection = Some [], db_raises = (\<lambda>name. False),
      db_object_id = (\<lambda>n. ''oid'')\<rparr>"

section \<open>Properties of the HTTP layer\<close>

lemma error_response_invalid_credentials:
  "create_error_response ''INVALID_CREDENTIALS'' None =
     [(''error'', ''INVALID_CREDENTIALS''), (''message'', ''Invalid email or password'')]"
  by (simp add: create_error_response_def ERROR_MESSAGES_def)

lemma error_response_invalid_token:
  "create_error_response ''INVALID_TOKEN'' None =
     [(''error'', ''INVALID_TOKEN''), (''message'', ''Invalid or expired token'')]"
  by (simp add: create_error_response_def ERROR_MESSAGES_def)

text \<open>
  The codes \<open>AUTHENTICATION_REQUIRED\<close>, \<open>INVALID_API_KEY\<close> and \<open>MISSING_AUDIO\<close>
  are not in the registry: their responses carry the default entry.
\<close>

lemma error_response_unregistered:
  "create_error_response ''AUTHENTICATION_REQUIRED'' None =
     [(''error'', ''UNKNOWN_ERROR''), (''message'', ''An unexpected error occurred'')]"
  "create_error_response ''INVALID_API_KEY'' None =
     [(''error'', ''UNKNOWN_ERROR''), (''message'', ''An unexpected error occurred'')]"
  "create_error_response ''MISSING_AUDIO'' None =
     [(''error'', ''UNKNOWN_ERROR''), (''message'', ''An unexpected error occurred'')]"
  by (simp_all add: create_error_response_def ERROR_MESSAGES_def)

text \<open>
  C7. On \<open>POST /auth/login\<close> a wrong password for a known email gives the error
  code \<open>INVALID_CREDENTIALS\<close> with status 401, and an unknown email gives the
  very same exception: the response does not tell whether the email exists.
\<close>

theorem login_does_not_reveal_email:
  assumes "get_user_by_email dbm unknown_email = None"
    and "get_user_by_email dbm known_email = Some user"
    and "verify_password (c_auth_manager c) wrong_password (u_password_hash user) = Inr False"
  shows "login_user c dbm known_email wrong_password =
           Inl (HTTPException 401
                  (DetailDict [(''error'', ''INVALID_CREDENTIALS''),
                               (''message'', ''Invalid email or password'')]))
       \<and> login_user c dbm unknown_email any_password =
           login_user c dbm known_email wrong_password"
  using assms by (simp add: login_user_def error_response_invalid_credentials)

theorem login_does_not_reveal_email_witness:
  "get_user_by_email demo_db ''bob@example.com'' = None
   \<and> get_user_by_email demo_db ''alice@example.com'' = Some alice
   \<and> verify_password (c_auth_manager demo_components) ''guess'' (u_password_hash alice)
       = Inr False
   \<and> login_user demo_components demo_db ''alice@example.com'' ''guess'' =
       Inl (HTTPException 401
              (DetailDict [(''error'', ''INVALID_CREDENTIALS''),
                           (''message'', ''Invalid email or password'')]))
   \<and> login_user demo_components demo_db ''bob@example.com'' ''password1'' =
       login_user demo_components demo_db ''alice@example.com'' ''guess''"
proof -
  have a: "get_user_by_email demo_db ''bob@example.com'' = None"
    by (simp add: get_user_by_email_def demo_db_def alice_def)
  have b: "get_user_by_email demo_db ''alice@example.com'' = Some alice"
    by (simp add: get_user_by_email_def demo_db_def alice_def)
  have c: "verify_password (c_auth_manager demo_components) ''guess'' (u_password_hash alice)
       = Inr False"
    by (simp add: demo_components_def demo_auth_def alice_def)
  from login_does_not_reveal_email [OF a b c, of "''password1''"] a b c
  show ?thesis by (intro conjI) simp_all
qed


lemma split_on_no_sep: "sep \<notin> set xs \<Longrightarrow> split_on sep xs = [xs]"
  by (induction xs) auto

lemma bearer_token:
  "CHR '' '' \<notin> set token \<Longrightarrow>
     py_index (split_on CHR '' '' (''Bearer '' @ token)) 1 = Inr token"
  by (simp add: split_on_no_sep py_index_def)

lemma startswith_bearer: "startswith (''Bearer '' @ token) ''Bearer ''"
  by (simp add: startswith_def)

text \<open>The three branches of the authentication step.\<close>

lemma check_authentication_cases:
  "check_authentication c dbm api_key authorization =
     (if truthy authorization \<and> startswith (the authorization) ''Bearer '' then
        check_authentication c dbm None authorization
      else if truthy api_key then
        (if the api_key = API_KEY c then Inr (''anonymous'', None)
         else case get_user_by_api_key dbm (the api_key) of
                None \<Rightarrow> Inl (HTTPException 401
                               (DetailDict (create_error_response ''INVALID_API_KEY'' None)))
              | Some user \<Rightarrow> Inr (u_email user, Some (u_id user)))
      else Inl (HTTPException 401
                  (DetailDict (create_error_response ''AUTHENTICATION_REQUIRED'' None))))"
  by (simp add: check_authentication_def)

lemma check_authentication_bearer:
  assumes "CHR '' '' \<notin> set token"
    and "decode_access_token (c_auth_manager c) token = Some payload"
    and "map_of payload ''sub'' = Some email" and "email \<noteq> []"
    and "get_user_by_email dbm email = Some user"
  shows "check_authentication c dbm api_key (Some (''Bearer '' @ token)) =
           Inr (email, Some (u_id user))"
proof -
  have p: "payload \<noteq> []" using assms(3) by auto
  have t: "truthy (Some (''Bearer '' @ token))" by (simp add: truthy_def)
  have s: "truthy (Some email)" using assms(4) by (simp add: truthy_def)
  show ?thesis
    unfolding check_authentication_def option.sel
    by (simp only: t s startswith_bearer bearer_token [OF assms(1)] assms(2) assms(3) assms(5)
          p simp_thms if_True if_False sum.case option.case option.sel)
qed

lemma detect_voice_rejected:
  "check_authentication c dbm api_key authorization = Inl e \<Longrightarrow>
     detect_voice c dbm fs utcnow audio_base64 api_key authorization = (Inl e, dbm, fs)"
  by (simp add: detect_voice_def)















lemma demo_legacy_key_accepted:
  "check_authentication demo_components dbm (Some ''secret-key'') None =
     Inr (''anonymous'', None)"
  by (simp add: check_authentication_cases truthy_def demo_components_def)


lemma demo_bearer_api_key:
  "check_authentication demo_components demo_db None (Some ''Bearer secret-key'') =
     Inl (HTTPException 401
            (DetailDict [(''error'', ''INVALID_TOKEN''),
                         (''message'', ''Invalid or expired token'')]))"
proof -
  have t: "truthy (Some (''Bearer '' @ ''secret-key''))" by (simp add: truthy_def)
  have b: "py_index (split_on CHR '' '' (''Bearer '' @ ''secret-key'')) 1 = Inr ''secret-key''"
    by (rule bearer_token) simp
  have d: "decode_access_token (c_auth_manager demo_components) ''secret-key'' = None"
    by (simp add: demo_components_def demo_auth_def)
  have "check_authentication demo_components demo_db None (Some (''Bearer '' @ ''secret-key''))
      = Inl (HTTPException 401 (DetailDict (create_error_response ''INVALID_TOKEN'' None)))"
    unfolding check_authentication_def option.sel
    by (simp only: t startswith_bearer b d simp_thms if_True sum.case option.case)
  then show ?thesis by (simp add: error_response_invalid_token)
qed

text \<open>
  What the code answers to a request with no credentials: status 401, and the
  default error code, since \<open>AUTHENTICATION_REQUIRED\<close> is not in the registry.
\<close>

lemma missing_credentials_response:
  "detect_voice c dbm fs utcnow audio_base64 None None =
     (Inl (HTTPException 401
             (DetailDict [(''error'', ''UNKNOWN_ERROR''),
                          (''message'', ''An unexpected error occurred'')])), dbm, fs)"
  by (simp add: detect_voice_def check_authentication_cases truthy_def
        error_response_unregistered)


lemma check_authentication_no_bearer:
  assumes "\<not> (truthy authorization \<and> startswith (the authorization) ''Bearer '')"
  shows "check_authentication c dbm api_key authorization =
     (if truthy api_key then
        (if the api_key = API_KEY c then Inr (''anonymous'', None)
         else case get_user_by_api_key dbm (the api_key) of
                None \<Rightarrow> Inl (HTTPException 401
                               (DetailDict (create_error_response ''INVALID_API_KEY'' None)))
              | Some user \<Rightarrow> Inr (u_email user, Some (u_id user)))
      else Inl (HTTPException 401
                  (DetailDict (create_error_response ''AUTHENTICATION_REQUIRED'' None))))"
  by (subst check_authentication_cases) (simp only: assms if_False)

text \<open>
  C2, as the code has it.  On \<open>POST /detect-voice\<close> authentication is accepted
  through the \<open>Authorization\<close> header carrying \<open>Bearer <jwt>\<close> (a token whose
  subject is a registered user) or through the separate \<open>api_key\<close> header
  carrying the process-wide key or the key of a registered user; a bearer
  \<open>Authorization\<close> header takes priority, the \<open>api_key\<close> header is not read
  then; a request with neither a bearer token nor an API key is rejected with
  status 401.
\<close>

theorem detect_voice_authentication:
  "(CHR '' '' \<notin> set token
      \<and> decode_access_token (c_auth_manager c) token = Some payload
      \<and> map_of payload ''sub'' = Some email \<and> email \<noteq> []
      \<and> get_user_by_email dbm email = Some user
    \<longrightarrow> check_authentication c dbm api_key (Some (''Bearer '' @ token)) =
          Inr (email, Some (u_id user)))
   \<and> (\<not> (truthy authorization \<and> startswith (the authorization) ''Bearer '')
      \<and> key \<noteq> [] \<and> key = API_KEY c
    \<longrightarrow> check_authentication c dbm (Some key) authorization = Inr (''anonymous'', None))
   \<and> (\<not> (truthy authorization \<and> startswith (the authorization) ''Bearer '')
      \<and> key \<noteq> [] \<and> key \<noteq> API_KEY c \<and> get_user_by_api_key dbm key = Some user
    \<longrightarrow> check_authentication c dbm (Some key) authorization =
          Inr (u_email user, Some (u_id user)))
   \<and> (truthy authorization \<and> startswith (the authorization) ''Bearer ''
    \<longrightarrow> detect_voice c dbm fs utcnow clip api_key authorization =
        detect_voice c dbm fs utcnow clip api_key' authorization)
   \<and> (\<not> (truthy authorization \<and> startswith (the authorization) ''Bearer '')
      \<and> \<not> truthy api_key
    \<longrightarrow> (\<exists>d. detect_voice c dbm fs utcnow clip api_key authorization =
               (Inl (HTTPException 401 d), dbm, fs)))"
proof (intro conjI impI)
  assume "CHR '' '' \<notin> set token
      \<and> decode_access_token (c_auth_manager c) token = Some payload
      \<and> map_of payload ''sub'' = Some email \<and> email \<noteq> []
      \<and> get_user_by_email dbm email = Some user"
  then show "check_authentication c dbm api_key (Some (''Bearer '' @ token)) =
          Inr (email, Some (u_id user))"
    by (elim conjE) (rule check_authentication_bearer; assumption)
next
  assume a2: "\<not> (truthy authorization \<and> startswith (the authorization) ''Bearer '')
      \<and> key \<noteq> [] \<and> key = API_KEY c"
  then have nb: "\<not> (truthy authorization \<and> startswith (the authorization) ''Bearer '')"
    by (rule conjunct1)
  from a2 have k: "key \<noteq> []" "key = API_KEY c"
    by (rule conjunct2 [THEN conjunct1], rule conjunct2 [THEN conjunct2])
  show "check_authentication c dbm (Some key) authorization = Inr (''anonymous'', None)"
    unfolding check_authentication_no_bearer [OF nb] using k by (simp add: truthy_def)
next
  assume a3: "\<not> (truthy authorization \<and> startswith (the authorization) ''Bearer '')
      \<and> key \<noteq> [] \<and> key \<noteq> API_KEY c \<and> get_user_by_api_key dbm key = Some user"
  then have nb: "\<not> (truthy authorization \<and> startswith (the authorization) ''Bearer '')"
    by (rule conjunct1)
  from a3 have k: "key \<noteq> []" "key \<noteq> API_KEY c" "get_user_by_api_key dbm key = Some user"
    by (rule conjunct2 [THEN conjunct1], rule conjunct2 [THEN conjunct2, THEN conjunct1],
        rule conjunct2 [THEN conjunct2, THEN conjunct2])
  show "check_authentication c dbm (Some key) authorization =
          Inr (u_email user, Some (u_id user))"
    unfolding check_authentication_no_bearer [OF nb] using k by (simp add: truthy_def)
next
  assume "truthy authorization \<and> startswith (the authorization) ''Bearer ''"
  then have "check_authentication c dbm api_key authorization =
             check_authentication c dbm api_key' authorization"
    by (simp add: check_authentication_cases [of c dbm api_key]
          check_authentication_cases [of c dbm api_key'])
  then show "detect_voice c dbm fs utcnow clip api_key authorization =
        detect_voice c dbm fs utcnow clip api_key' authorization"
    by (simp add: detect_voice_def)
next
  assume a5: "\<not> (truthy authorization \<and> startswith (the authorization) ''Bearer '')
      \<and> \<not> truthy api_key"
  then have nb: "\<not> (truthy authorization \<and> startswith (the authorization) ''Bearer '')"
    by (rule conjunct1)
  from a5 have k: "\<not> truthy api_key"
    by (rule conjunct2)
  have "check_authentication c dbm api_key authorization =
      Inl (HTTPException 401
             (DetailDict (create_error_response ''AUTHENTICATION_REQUIRED'' None)))"
    unfolding check_authentication_no_bearer [OF nb] using k by simp
  then have "detect_voice c dbm fs utcnow clip api_key authorization =
      (Inl (HTTPException 401
              (DetailDict (create_error_response ''AUTHENTICATION_REQUIRED'' None))), dbm, fs)"
    by (rule detect_voice_rejected)
  then show "\<exists>d. detect_voice c dbm fs utcnow clip api_key authorization =
               (Inl (HTTPException 401 d), dbm, fs)"
    by (rule exI)
qed

theorem detect_voice_authentication_witness:
  "check_authentication demo_components demo_db None (Some (''Bearer '' @ ''tok-alice'')) =
     Inr (''alice@example.com'', Some ''u1'')
   \<and> check_authentication demo_components demo_db (Some ''secret-key'') None =
     Inr (''anonymous'', None)
   \<and> check_authentication demo_components demo_db (Some ''key-alice'') None =
     Inr (''alice@example.com'', Some ''u1'')
   \<and> detect_voice demo_components demo_db Map.empty 0 ''AAAA''
       (Some ''secret-key'') (Some ''Bearer tok-alice'') =
     detect_voice demo_components demo_db Map.empty 0 ''AAAA'' None (Some ''Bearer tok-alice'')
   \<and> (\<exists>d. detect_voice demo_components demo_db Map.empty 0 ''AAAA'' None None =
          (Inl (HTTPException 401 d), demo_db, Map.empty))"
proof -
  have u: "get_user_by_email demo_db ''alice@example.com'' = Some alice"
    "get_user_by_api_key demo_db ''key-alice'' = Some alice"
    by (simp_all add: get_user_by_email_def get_user_by_api_key_def demo_db_def alice_def)
  have b: "truthy (Some ''Bearer tok-alice'')"
    "startswith (the (Some ''Bearer tok-alice'')) ''Bearer ''"
    by (simp_all add: truthy_def startswith_def)
  have n: "\<not> (truthy None \<and> startswith (the None) ''Bearer '')" "\<not> truthy None"
    by (simp_all add: truthy_def)
  note t = detect_voice_authentication
    [where c = demo_components and dbm = demo_db and token = "''tok-alice''"
       and payload = "[(''sub'', ''alice@example.com'')]" and email = "''alice@example.com''"
       and user = alice and authorization = None and api_key = None
       and fs = Map.empty and utcnow = 0 and clip = "''AAAA''"]
  note t2 = detect_voice_authentication
    [where c = demo_components and dbm = demo_db and user = alice
       and authorization = "Some ''Bearer tok-alice''" and api_key = "Some ''secret-key''"
       and api_key' = None and fs = Map.empty and utcnow = 0 and clip = "''AAAA''"]
  have 1: "check_authentication demo_components demo_db None (Some (''Bearer '' @ ''tok-alice''))
      = Inr (''alice@example.com'', Some ''u1'')"
    using t [of "''x''"] u by (simp add: demo_components_def demo_auth_def alice_def)
  have 2: "check_authentication demo_components demo_db (Some ''secret-key'') None =
     Inr (''anonymous'', None)"
    using t [of "''secret-key''"] n by (simp add: demo_components_def)
  have 3: "check_authentication demo_components demo_db (Some ''key-alice'') None =
     Inr (''alice@example.com'', Some ''u1'')"
    using t [of "''key-alice''"] n u by (simp add: demo_components_def alice_def)
  have 4: "detect_voice demo_components demo_db Map.empty 0 ''AAAA''
       (Some ''secret-key'') (Some ''Bearer tok-alice'') =
     detect_voice demo_components demo_db Map.empty 0 ''AAAA'' None (Some ''Bearer tok-alice'')"
    using t2 b by blast
  have 5: "\<exists>d. detect_voice demo_components demo_db Map.empty 0 ''AAAA'' None None =
          (Inl (HTTPException 401 d), demo_db, Map.empty)"
    using t [of "''x''"] n by blast
  from 1 2 3 4 5 show ?thesis by (intro conjI)
qed

text \<open>
  The specification also lists \<open>Bearer <api_key>\<close> in the \<open>Authorization\<close>
  header for this endpoint.  The code reads every bearer value as a token: the
  process-wide key sent that way is rejected as an invalid token, while the same
  key in the \<open>api_key\<close> header is accepted.
\<close>

theorem bearer_api_key_is_rejected:
  "detect_voice demo_components demo_db Map.empty 0 ''AAAA'' None (Some ''Bearer secret-key'') =
     (Inl (HTTPException 401
             (DetailDict [(''error'', ''INVALID_TOKEN''),
                          (''message'', ''Invalid or expired token'')])), demo_db, Map.empty)
   \<and> check_authentication demo_components demo_db (Some ''secret-key'') None =
       Inr (''anonymous'', None)"
  by (simp add: detect_voice_rejected [OF demo_bearer_api_key] demo_legacy_key_accepted)












end
